theory Spec2Isabelle
  imports Complex_Main "HOL-Library.Word" "HOL-Library.Sublist"
begin

section \<open>JavaScript strings\<close>

text \<open>
  A JavaScript string is a sequence of UTF-16 code units; \<open>length\<close>, \<open>substring\<close>,
  \<open>includes\<close> and the regular expressions of the server all count and compare code
  units. A string is therefore a list of 16-bit words, and \<open>js\<close> embeds an ASCII
  literal of the source.
\<close>

type_synonym jstring = "16 word list"

type_synonym bytes = "8 word list"

definition js :: "string \<Rightarrow> jstring" where
  "js s = map of_char s"

fun unlines :: "string list \<Rightarrow> jstring" where
  "unlines [] = []"
| "unlines [l] = js l"
| "unlines (l # ls) = js l @ 0x0A # unlines ls"

text \<open>
  \<open>s.substring(a, b)\<close>: both indices are clamped to \<open>[0, s.length]\<close> and swapped when
  \<open>a > b\<close>; \<open>s.substring(a)\<close> runs to the end of the string.
\<close>

definition substring :: "'a list \<Rightarrow> int \<Rightarrow> int \<Rightarrow> 'a list" where
  "substring s a b =
     (let n = int (length s);
          a' = max 0 (min a n);
          b' = max 0 (min b n);
          lo = min a' b';
          hi = max a' b'
      in take (nat (hi - lo)) (drop (nat lo) s))"

definition substring_from :: "'a list \<Rightarrow> int \<Rightarrow> 'a list" where
  "substring_from s a = substring s a (int (length s))"

text \<open>\<open>s.includes(p)\<close>: \<open>p\<close> occurs in \<open>s\<close> as a contiguous run.\<close>

fun js_includes :: "'a list \<Rightarrow> 'a list \<Rightarrow> bool" where
  "js_includes [] p = (p = [])"
| "js_includes (x # xs) p = (prefix p (x # xs) \<or> js_includes xs p)"

text \<open>\<open>s.indexOf(p)\<close>, with \<open>None\<close> for \<open>-1\<close>.\<close>

fun indexOf :: "'a list \<Rightarrow> 'a list \<Rightarrow> nat option" where
  "indexOf [] p = (if p = [] then Some 0 else None)"
| "indexOf (x # xs) p =
     (if prefix p (x # xs) then Some 0 else map_option Suc (indexOf xs p))"

text \<open>
  \<open>s.trim()\<close> removes the code units of ECMAScript's WhiteSpace and LineTerminator
  productions from both ends.
\<close>

definition is_space :: "16 word \<Rightarrow> bool" where
  "is_space c \<longleftrightarrow>
     c \<in> {0x09, 0x0A, 0x0B, 0x0C, 0x0D, 0x20, 0xA0, 0x1680, 0x2028, 0x2029, 0x202F,
          0x205F, 0x3000, 0xFEFF} \<or> (0x2000 \<le> c \<and> c \<le> 0x200A)"

definition trim :: "jstring \<Rightarrow> jstring" where
  "trim s = rev (dropWhile is_space (rev (dropWhile is_space s)))"

text \<open>Decimal rendering of a non-negative integer, as a template literal prints it.\<close>

function show_nat :: "nat \<Rightarrow> jstring" where
  "show_nat n =
     (if n < 10 then [0x30 + of_nat n]
      else show_nat (n div 10) @ [0x30 + of_nat (n mod 10)])"
  by pat_completeness auto
termination
  by (relation "measure id") auto

declare show_nat.simps [simp del]

section \<open>The prompt builder\<close>

text \<open>
  \<open>getBankStatementPrompt\<close> first counts the matches of \<open>/\d{2}\/\d{2}\/\d{4}/g\<close>: the
  scan goes left to right, a match consumes its ten code units, and \<open>\d\<close> is an ASCII
  digit.
\<close>

definition is_digit :: "16 word \<Rightarrow> bool" where
  "is_digit c \<longleftrightarrow> 0x30 \<le> c \<and> c \<le> 0x39"

definition is_date :: "jstring \<Rightarrow> bool" where
  "is_date s \<longleftrightarrow>
     length s = 10 \<and>
     (\<forall>i \<in> {0, 1, 3, 4, 6, 7, 8, 9}. is_digit (s ! i)) \<and> s ! 2 = 0x2F \<and> s ! 5 = 0x2F"

function count_dates :: "jstring \<Rightarrow> nat" where
  "count_dates s =
     (if s = [] then 0
      else if is_date (take 10 s) then Suc (count_dates (drop 10 s))
      else count_dates (tl s))"
  by pat_completeness auto
termination
  by (relation "measure length") auto

declare count_dates.simps [simp del]

text \<open>The fixed text of the two templates, between the interpolations.\<close>

definition bankPrompt_intro :: jstring where
  \<open>bankPrompt_intro = unlines
    ['''',
     ''    You are an expert financial analyst. Analyze this bank statement with high precision.'',
     ''    '',
     ''    CRITICAL RULES:'',
     ''    1. Return ONLY valid JSON - no markdown, no extra text, no code blocks'',
     ''    2. All numbers must be numeric values without currency symbols (e.g., 1500.50, not "'']\<close>

definition bankPrompt_rules :: jstring where
  \<open>bankPrompt_rules = unlines
    [''1,500.50")'',
     ''    3. All dates should be in DD/MM/YYYY format'',
     ''    4. For transactions array: '']\<close>

definition bankPrompt_schema :: jstring where
  \<open>bankPrompt_schema = unlines
    ['''',
     ''    5. If returning JSON in code blocks, wrap it in ```json and ```'',
     ''    '',
     ''    TASK BREAKDOWN:'',
     ''    Step 1: Extract account details (bank name, account number, period, opening/closing balance)'',
     ''    Step 2: Count and sum all transactions (total deposits, withdrawals, transaction count)'',
     ''    Step 3: Categorize transactions:'',
     ''       - UPI: Any transaction with "UPI" in description (except ONECARD)'',
     ''       - NEFT: Transactions with "NEFT"'',
     ''       - ATM: ATM withdrawals'',
     ''       - CreditCard: Credit card payments including ONECARD'',
     ''       - achTransfers: ACH debits/credits (ETMONEY, etc)'',
     ''       - Others: Everything else'',
     ''    Step 4: Identify patterns (recurring payments, highest spending month if multi-month)'',
     ''    '',
     ''    EXPECTED JSON OUTPUT:'',
     ''    {'',
     ''      "accountInfo": {'',
     ''        "bankName": "extract bank name",'',
     ''        "accountNumber": "extract account number",'',
     ''        "period": "extract statement period",'',
     ''        "openingBalance": extract_opening_balance_as_number,'',
     ''        "closingBalance": extract_closing_balance_as_number'',
     ''      },'',
     ''      "summary": {'',
     ''        "totalDeposits": sum_all_credits,'',
     ''        "totalWithdrawals": sum_all_debits,'',
     ''        "netFlow": deposits_minus_withdrawals,'',
     ''        "transactionCount": total_number_of_transactions,'',
     ''        "avgDailySpending": average_daily_debit_amount'',
     ''      },'',
     ''      "categories": {'',
     ''        "upi": { "total": sum_upi_transactions, "count": count_upi_transactions, "percentage": percent_of_total },'',
     ''        "neft": { "total": sum_neft, "count": count_neft, "percentage": percent },'',
     ''        "atm": { "total": sum_atm, "count": count_atm, "percentage": percent },'',
     ''        "creditCard": { "total": sum_cc, "count": count_cc, "percentage": percent },'',
     ''        "achTransfers": { "total": sum_ach, "count": count_ach, "percentage": percent },'',
     ''        "others": { "total": sum_others, "count": count_others, "percentage": percent }'',
     ''      },'',
     ''      "monthlyPatterns": {'',
     ''        "highestSpendingMonth": "month_name_with_year",'',
     ''        "lowestSpendingMonth": "month_name_with_year",'',
     ''        "averageMonthlySpending": average_per_month'',
     ''      },'',
     ''      "recurringPayments": ['',
     ''        { "description": "merchant_name", "amount": recurring_amount, "frequency": "monthly/weekly" }'',
     ''      ],'',
     ''      "topTransactions": ['',
     ''        { "date": "DD/MM/YYYY", "description": "transaction_description", "amount": amount, "type": "debit/credit" }'',
     ''      ],'',
     ''      "alerts": ['',
     ''        "High UPI transaction volume detected",'',
     ''        "Multiple ACH debits on same day"'',
     ''      ],'',
     ''      "transactions": ['',
     ''        { "date": "DD/MM/YYYY", "description": "full_description", "debit": debit_amount_or_0, "credit": credit_amount_or_0, "balance": balance_after }'',
     ''      ]'',
     ''    }'',
     ''    '',
     ''    Bank Statement Text:'',
     ''    '']\<close>

definition creditPrompt_schema :: jstring where
  \<open>creditPrompt_schema = unlines
    ['''',
     ''    You are a financial analyst. Analyze this credit card statement and extract ALL information.'',
     ''    '',
     ''    CRITICAL RULES:'',
     ''    1. Return ONLY valid JSON - no markdown, no extra text, no code blocks'',
     ''    2. All numbers must be numeric values without currency symbols (e.g., 550.75, not "$550.75")'',
     ''    3. All dates should be in DD/MM/YYYY format'',
     ''    4. If returning JSON in code blocks, wrap it in ```json and ```'',
     ''    '',
     ''    TASK BREAKDOWN:'',
     ''    1. Extract all transactions with date, merchant, and amount'',
     ''    2. Identify ALL subscriptions (Netflix, Spotify, ChatGPT, etc.)'',
     ''    3. Categorize spending by type'',
     ''    4. Find expensive transactions'',
     ''    5. Calculate total spending'',
     ''    '',
     ''    Return this EXACT JSON structure:'',
     ''    {'',
     ''      "cardInfo": {'',
     ''        "bankName": "string",'',
     ''        "cardNumber": "string",'',
     ''        "statementPeriod": "string",'',
     ''        "creditLimit": number,'',
     ''        "availableCredit": number'',
     ''      },'',
     ''      "summary": {'',
     ''        "totalSpent": number,'',
     ''        "paymentMade": number,'',
     ''        "minimumDue": number,'',
     ''        "dueDate": "string",'',
     ''        "outstandingBalance": number'',
     ''      },'',
     ''      "subscriptions": ['',
     ''        { '',
     ''          "merchant": "string", '',
     ''          "amount": number, '',
     ''          "category": "string",'',
     ''          "frequency": "monthly/annual"'',
     ''        }'',
     ''      ],'',
     ''      "categories": {'',
     ''        "dining": { "total": number, "count": number, "percentage": number },'',
     ''        "shopping": { "total": number, "count": number, "percentage": number },'',
     ''        "travel": { "total": number, "count": number, "percentage": number },'',
     ''        "entertainment": { "total": number, "count": number, "percentage": number },'',
     ''        "utilities": { "total": number, "count": number, "percentage": number },'',
     ''        "others": { "total": number, "count": number, "percentage": number }'',
     ''      },'',
     ''      "expensiveTransactions": ['',
     ''        { "date": "string", "merchant": "string", "amount": number }'',
     ''      ],'',
     ''      "alerts": ["string"],'',
     ''      "transactions": ['',
     ''        { "date": "string", "merchant": "string", "amount": number, "category": "string" }'',
     ''      ]'',
     ''    }'',
     ''    '',
     ''    Credit Card Statement Text:'',
     ''    '']\<close>

definition omission_marker :: jstring where
  \<open>omission_marker = unlines ['''', ''...[MIDDLE SECTION OMITTED FOR LENGTH]...'', '''']\<close>

definition prompt_tail :: jstring where
  \<open>prompt_tail = unlines ['''', ''  '']\<close>

text \<open>
  Both builders keep a text of at most 500000 code units whole and replace a longer one
  by its first 100000 code units, the marker and its last 100000 code units.
\<close>

definition textToAnalyze :: "jstring \<Rightarrow> jstring" where
  "textToAnalyze text =
     (if length text > 500000
      then (let first = substring text 0 100000;
                last = substring_from text (int (length text) - 100000)
            in first @ omission_marker @ last)
      else text)"

definition isLargeStatement :: "jstring \<Rightarrow> bool" where
  "isLargeStatement text \<longleftrightarrow> count_dates text > 200 \<or> length text > 100000"

definition getBankStatementPrompt :: "jstring \<Rightarrow> jstring" where
  "getBankStatementPrompt text =
     bankPrompt_intro @ [0x20B9] @ bankPrompt_rules @
     (if isLargeStatement text then js ''Include ONLY the 50 largest transactions''
      else js ''Include ALL transactions'') @
     bankPrompt_schema @ textToAnalyze text @ prompt_tail"

definition getCreditCardPrompt :: "jstring \<Rightarrow> jstring" where
  "getCreditCardPrompt text = creditPrompt_schema @ textToAnalyze text @ prompt_tail"

section \<open>JSON values and thrown errors\<close>

text \<open>
  A request body and a parsed model response are JSON values. A number is the rational
  value of the double that \<open>JSON.parse\<close> produced; the server never computes with
  numbers, it only tests them against zero and copies them. An object lists its own
  properties in enumeration order. \<open>undefined\<close> is not a JSON value: an expression that
  may be undefined has type \<open>json option\<close>.
\<close>

datatype json =
    JNull
  | JBool bool
  | JNum rat
  | JStr jstring
  | JArr "json list"
  | JObj "(jstring \<times> json) list"

text \<open>A thrown value with its \<open>message\<close> property, which may be undefined.\<close>

datatype js_error = Error (message: "jstring option")

definition TypeError_null :: "jstring \<Rightarrow> js_error" where
  "TypeError_null k =
     Error (Some (js ''Cannot read properties of null (reading '' @ [0x27] @ k @ [0x27] @ js '')''))"

definition SyntaxError :: js_error where
  "SyntaxError = Error (Some (js ''Unexpected token in JSON''))"

fun truthy :: "json option \<Rightarrow> bool" where
  "truthy None = False"
| "truthy (Some JNull) = False"
| "truthy (Some (JBool b)) = b"
| "truthy (Some (JNum n)) = (n \<noteq> 0)"
| "truthy (Some (JStr s)) = (s \<noteq> [])"
| "truthy (Some (JArr xs)) = True"
| "truthy (Some (JObj kvs)) = True"

text \<open>\<open>a || b\<close> where \<open>b\<close> is a literal default.\<close>

definition js_or :: "json option \<Rightarrow> json \<Rightarrow> json" where
  "js_or a b = (case a of None \<Rightarrow> b | Some v \<Rightarrow> if truthy (Some v) then v else b)"

text \<open>
  \<open>v.k\<close> for the property names the server reads (none of them is a property of a
  built-in prototype): a TypeError on \<open>null\<close>, the own property of an object, undefined
  on every other value.
\<close>

fun get_prop :: "json \<Rightarrow> jstring \<Rightarrow> js_error + json option" where
  "get_prop JNull k = Inl (TypeError_null k)"
| "get_prop (JObj kvs) k = Inr (map_of kvs k)"
| "get_prop v k = Inr None"

fun isArray :: "json option \<Rightarrow> bool" where
  "isArray (Some (JArr xs)) = True"
| "isArray v = False"

text \<open>\<open>Object.entries(v)\<close> for a value \<open>v\<close> that passed a truthiness test.\<close>

fun entries :: "json \<Rightarrow> (jstring \<times> json) list" where
  "entries (JObj kvs) = kvs"
| "entries (JArr xs) = zip (map show_nat [0..<length xs]) xs"
| "entries (JStr s) = zip (map show_nat [0..<length s]) (map (\<lambda>c. JStr [c]) s)"
| "entries v = []"

text \<open>Sequencing of steps that may throw.\<close>

definition and_then :: "js_error + 'a \<Rightarrow> ('a \<Rightarrow> js_error + 'b) \<Rightarrow> js_error + 'b" where
  "and_then r f = (case r of Inl e \<Rightarrow> Inl e | Inr x \<Rightarrow> f x)"

text \<open>\<open>xs.forEach(f)\<close> collecting what each call produces; the first throw ends the loop.\<close>

fun forEach :: "('a \<Rightarrow> js_error + 'b) \<Rightarrow> 'a list \<Rightarrow> js_error + 'b list" where
  "forEach f [] = Inr []"
| "forEach f (x # xs) =
     (case f x of
        Inl e \<Rightarrow> Inl e
      | Inr y \<Rightarrow> (case forEach f xs of Inl e \<Rightarrow> Inl e | Inr ys \<Rightarrow> Inr (y # ys)))"

section \<open>Extraction of the JSON payload from the model's text\<close>

text \<open>
  \<open>analysisText.match(/```json([\s\S]*?)```/)\<close>: the match starts at the first
  \<open>```json\<close>, and the lazy group ends at the first \<open>```\<close> after it. When that first
  opening fence has no closing fence, no later one has either, so there is no match.
  The result is the capture group \<open>jsonMatch[1]\<close>.
\<close>

definition fence_open :: jstring where
  \<open>fence_open = js ''```json''\<close>

definition fence_close :: jstring where
  \<open>fence_close = js ''```''\<close>

definition fenced_capture :: "jstring \<Rightarrow> jstring option" where
  "fenced_capture t =
     (case indexOf t fence_open of
        None \<Rightarrow> None
      | Some i \<Rightarrow>
          (let rest = drop (i + length fence_open) t
           in case indexOf rest fence_close of
                None \<Rightarrow> None
              | Some j \<Rightarrow> Some (take j rest)))"

text \<open>
  \<open>analysisText.match(/\{[\s\S]*\}/)\<close>: the match starts at the first \<open>{\<close>, and the
  greedy star runs to the last \<open>}\<close> of the text. The result is the match
  \<open>fallbackMatch[0]\<close>.
\<close>

definition brace_span :: "jstring \<Rightarrow> jstring option" where
  "brace_span t =
     (case dropWhile (\<lambda>c. c \<noteq> 0x7B) t of
        [] \<Rightarrow> None
      | b # rest \<Rightarrow>
          (if 0x7D \<in> set rest
           then Some (b # rev (dropWhile (\<lambda>c. c \<noteq> 0x7D) (rev rest)))
           else None))"

section \<open>The spreadsheet\<close>

record column =
  header :: jstring
  key :: jstring
  width :: nat

text \<open>
  A worksheet keeps the values handed to \<open>addRow\<close>, in order. ExcelJS fills the cells
  of a row object by column key and leaves the cell of a missing key empty.
\<close>

record worksheet =
  sheet_name :: jstring
  columns :: "column list"
  rows :: "json list"

type_synonym workbook = "worksheet list"

definition col :: "string \<Rightarrow> string \<Rightarrow> nat \<Rightarrow> column" where
  "col h k w = \<lparr>header = js h, key = js k, width = w\<rparr>"

definition cell :: "json \<Rightarrow> jstring \<Rightarrow> json option" where
  "cell row k = (case row of JObj kvs \<Rightarrow> map_of kvs k | _ \<Rightarrow> None)"

section \<open>The environment of a request\<close>

text \<open>
  The libraries and services the server calls are parameters of the model: pdf-lib
  (\<open>PDFDocument.load\<close> with an optional password, \<open>save\<close>), pdf-parse, the text
  generation API (model name and prompt to response text), \<open>JSON.parse\<close>, ExcelJS's
  \<open>writeBuffer\<close>, \<open>toUpperCase\<close>, the conversion to a string that a template literal
  applies to an interpolated value (it throws a TypeError on an object that yields no
  primitive, such as \<open>{"toString": 1}\<close>),
  \<open>Date.now()\<close>, the suffix \<open>Math.random().toString(36).substr(2, 9)\<close>, and the faults
  of the file system. Each call that can throw returns a sum.
\<close>

datatype fs_op = Mkdir | ReadFile | WriteFile | Unlink

record 'd env =
  load_pdf :: "bytes \<Rightarrow> jstring option \<Rightarrow> js_error + 'd"
  save_pdf :: "'d \<Rightarrow> js_error + bytes"
  pdf_text :: "bytes \<Rightarrow> js_error + jstring"
  generateContent :: "jstring \<Rightarrow> jstring \<Rightarrow> js_error + jstring"
  json_parse :: "jstring \<Rightarrow> json option"
  writeBuffer :: "workbook \<Rightarrow> js_error + bytes"
  toUpperCase :: "jstring \<Rightarrow> jstring"
  toString :: "json \<Rightarrow> js_error + jstring"
  date_now :: nat
  random36 :: jstring
  fs_fault :: "fs_op \<Rightarrow> jstring \<Rightarrow> js_error option"

text \<open>
  The state a request reads and writes: the files of the \<open>temp\<close> directory by path,
  and the lines written with \<open>console.error\<close> (their leading label). The output of
  \<open>console.log\<close> is not part of the model.
\<close>

record world =
  files :: "jstring \<rightharpoonup> bytes"
  errlog :: "jstring list"

definition console_error :: "string \<Rightarrow> world \<Rightarrow> world" where
  "console_error label w = w\<lparr>errlog := errlog w @ [js label]\<rparr>"

definition ENOENT :: "jstring \<Rightarrow> js_error" where
  "ENOENT p = Error (Some (js ''ENOENT: no such file or directory, '' @ p))"

definition readFile :: "'d env \<Rightarrow> jstring \<Rightarrow> world \<Rightarrow> js_error + bytes" where
  "readFile env p w =
     (case fs_fault env ReadFile p of
        Some e \<Rightarrow> Inl e
      | None \<Rightarrow> (case files w p of None \<Rightarrow> Inl (ENOENT p) | Some b \<Rightarrow> Inr b))"

definition writeFile :: "'d env \<Rightarrow> jstring \<Rightarrow> bytes \<Rightarrow> world \<Rightarrow> (js_error + unit) \<times> world" where
  "writeFile env p b w =
     (case fs_fault env WriteFile p of
        Some e \<Rightarrow> (Inl e, w)
      | None \<Rightarrow> (Inr (), w\<lparr>files := (files w)(p \<mapsto> b)\<rparr>))"

definition unlink :: "'d env \<Rightarrow> jstring \<Rightarrow> world \<Rightarrow> (js_error + unit) \<times> world" where
  "unlink env p w =
     (case fs_fault env Unlink p of
        Some e \<Rightarrow> (Inl e, w)
      | None \<Rightarrow>
          (case files w p of
             None \<Rightarrow> (Inl (ENOENT p), w)
           | Some b \<Rightarrow> (Inr (), w\<lparr>files := (files w)(p := None)\<rparr>)))"

section \<open>The temporary file store\<close>

text \<open>
  \<open>path.join(__dirname, 'temp', `${sessionId}.pdf`)\<close>, relative to the server's
  directory. The normalisation that \<open>path.join\<close> applies to an identifier holding
  path separators is not modelled.
\<close>

definition tempPath :: "jstring \<Rightarrow> jstring" where
  "tempPath sessionId = js ''temp/'' @ sessionId @ js ''.pdf''"

definition generateSessionId :: "'d env \<Rightarrow> jstring" where
  "generateSessionId env = js ''session_'' @ show_nat (date_now env) @ js ''_'' @ random36 env"

definition saveTemporaryFile ::
    "'d env \<Rightarrow> jstring \<Rightarrow> bytes \<Rightarrow> world \<Rightarrow> (js_error + unit) \<times> world" where
  "saveTemporaryFile env sessionId buffer w =
     (case fs_fault env Mkdir (js ''temp'') of
        Some e \<Rightarrow> (Inl e, w)
      | None \<Rightarrow> writeFile env (tempPath sessionId) buffer w)"

text \<open>The \<open>catch\<close> of \<open>getTemporaryFile\<close> returns \<open>null\<close>, here \<open>None\<close>.\<close>

definition getTemporaryFile :: "'d env \<Rightarrow> jstring \<Rightarrow> world \<Rightarrow> bytes option \<times> world" where
  "getTemporaryFile env sessionId w =
     (case readFile env (tempPath sessionId) w of
        Inr b \<Rightarrow> (Some b, w)
      | Inl error \<Rightarrow> (None, console_error ''File not found:'' w))"

definition deleteTemporaryFile ::
    "'d env \<Rightarrow> jstring \<Rightarrow> world \<Rightarrow> (js_error + unit) \<times> world" where
  "deleteTemporaryFile env sessionId w =
     (case unlink env (tempPath sessionId) w of
        (Inr u, w') \<Rightarrow> (Inr (), w')
      | (Inl error, w') \<Rightarrow> (Inr (), console_error ''Error deleting temp file:'' w'))"

section \<open>HTTP responses\<close>

text \<open>
  \<open>res.status(n).json(body)\<close> (\<open>res.json\<close> alone answers 200): the status and the
  properties of the body in the order of the object literal. A property whose value is
  undefined is dropped when the body is serialised. \<open>res.send(buffer)\<close> after
  \<open>setHeader\<close> is a download.
\<close>

datatype response =
    JsonResponse nat "(jstring \<times> json option) list"
  | Download "(jstring \<times> jstring) list" bytes


definition lit :: "string \<Rightarrow> json option" where
  "lit s = Some (JStr (js s))"

definition server_error :: "string \<Rightarrow> js_error \<Rightarrow> response" where
  "server_error label e =
     JsonResponse 500 [(js ''error'', lit label), (js ''details'', map_option JStr (message e))]"

text \<open>\<open>error.message && error.message.includes(word)\<close>\<close>

definition message_includes :: "js_error \<Rightarrow> string \<Rightarrow> bool" where
  "message_includes e word =
     (case message e of None \<Rightarrow> False | Some m \<Rightarrow> m \<noteq> [] \<and> js_includes m (js word))"

section \<open>POST /api/check-pdf\<close>

record upload =
  originalname :: jstring
  file_size :: nat
  buffer :: bytes

definition check_pdf_answer :: "string \<Rightarrow> bool \<Rightarrow> string \<Rightarrow> upload \<Rightarrow> jstring \<Rightarrow> response" where
  "check_pdf_answer st required msg file sessionId =
     JsonResponse 200
       [(js ''status'', lit st),
        (js ''passwordRequired'', Some (JBool required)),
        (js ''message'', lit msg),
        (js ''fileName'', Some (JStr (originalname file))),
        (js ''fileSize'', Some (JNum (of_nat (file_size file)))),
        (js ''sessionId'', Some (JStr sessionId))]"

text \<open>The inner \<open>try\<close>: load without a password, then save under a new session id.\<close>

definition check_pdf_load :: "'d env \<Rightarrow> upload \<Rightarrow> world \<Rightarrow> (js_error + response) \<times> world" where
  "check_pdf_load env file w =
     (case load_pdf env (buffer file) None of
        Inl e \<Rightarrow> (Inl e, w)
      | Inr pdfDoc \<Rightarrow>
          (let sessionId = generateSessionId env
           in case saveTemporaryFile env sessionId (buffer file) w of
                (Inl e, w') \<Rightarrow> (Inl e, w')
              | (Inr u, w') \<Rightarrow>
                  (Inr (check_pdf_answer ''success'' False
                          ''No password required. Click to continue.'' file sessionId), w')))"

text \<open>The outer \<open>try\<close>: the inner one with its \<open>catch\<close>.\<close>

definition check_pdf_try ::
    "'d env \<Rightarrow> upload option \<Rightarrow> world \<Rightarrow> (js_error + response) \<times> world" where
  "check_pdf_try env req_file w =
     (case req_file of
        None \<Rightarrow> (Inr (JsonResponse 400 [(js ''error'', lit ''No file uploaded'')]), w)
      | Some file \<Rightarrow>
          (case check_pdf_load env file w of
             (Inr r, w') \<Rightarrow> (Inr r, w')
           | (Inl error, w') \<Rightarrow>
               (if message_includes error ''encrypted''
                then (let sessionId = generateSessionId env
                      in case saveTemporaryFile env sessionId (buffer file) w' of
                           (Inl e, w'') \<Rightarrow> (Inl e, w'')
                         | (Inr u, w'') \<Rightarrow>
                             (Inr (check_pdf_answer ''password_required'' True
                                     ''This PDF is password protected. Please enter the password.''
                                     file sessionId), w''))
                else (Inl error, w'))))"

definition post_check_pdf :: "'d env \<Rightarrow> upload option \<Rightarrow> world \<Rightarrow> response \<times> world" where
  "post_check_pdf env req_file w =
     (case check_pdf_try env req_file w of
        (Inr r, w') \<Rightarrow> (r, w')
      | (Inl error, w') \<Rightarrow>
          (server_error ''Failed to check PDF'' error, console_error ''Error checking PDF:'' w'))"

section \<open>POST /api/unlock-pdf\<close>

text \<open>
  \<open>sessionId\<close> and \<open>password\<close> are strings of the request body or undefined; the empty
  string is falsy. The inner \<open>try\<close> loads with the password, serialises the document
  and saves it under \<open>`${sessionId}_unlocked`\<close>.
\<close>

definition unlock_pdf_load ::
    "'d env \<Rightarrow> jstring \<Rightarrow> jstring \<Rightarrow> bytes \<Rightarrow> world \<Rightarrow> (js_error + response) \<times> world" where
  "unlock_pdf_load env sessionId password pdfBuffer w =
     (case load_pdf env pdfBuffer (Some password) of
        Inl e \<Rightarrow> (Inl e, w)
      | Inr pdfDoc \<Rightarrow>
          (case save_pdf env pdfDoc of
             Inl e \<Rightarrow> (Inl e, w)
           | Inr unlockedPdfBytes \<Rightarrow>
               (case saveTemporaryFile env (sessionId @ js ''_unlocked'') unlockedPdfBytes w of
                  (Inl e, w') \<Rightarrow> (Inl e, w')
                | (Inr u, w') \<Rightarrow>
                    (Inr (JsonResponse 200
                            [(js ''status'', lit ''success''),
                             (js ''message'', lit ''PDF unlocked successfully! Processing...''),
                             (js ''sessionId'', Some (JStr (sessionId @ js ''_unlocked'')))]),
                     w'))))"

definition unlock_pdf_try ::
    "'d env \<Rightarrow> jstring option \<Rightarrow> jstring option \<Rightarrow> world \<Rightarrow> (js_error + response) \<times> world" where
  "unlock_pdf_try env sessionId password w =
     (if \<not> truthy (map_option JStr sessionId) \<or> \<not> truthy (map_option JStr password)
      then (Inr (JsonResponse 400 [(js ''error'', lit ''Session ID and password are required'')]), w)
      else
        (let sid = (case sessionId of Some s \<Rightarrow> s | None \<Rightarrow> []);
             pwd = (case password of Some s \<Rightarrow> s | None \<Rightarrow> [])
         in case getTemporaryFile env sid w of
              (None, w') \<Rightarrow>
                (Inr (JsonResponse 404 [(js ''error'', lit ''Session expired or file not found'')]), w')
            | (Some pdfBuffer, w') \<Rightarrow>
                (case unlock_pdf_load env sid pwd pdfBuffer w' of
                   (Inr r, w'') \<Rightarrow> (Inr r, w'')
                 | (Inl error, w'') \<Rightarrow>
                     (if message_includes error ''password''
                      then (Inr (JsonResponse 401
                                   [(js ''status'', lit ''invalid_password''),
                                    (js ''error'', lit ''Incorrect password. Please try again.'')]),
                            w'')
                      else (Inl error, w'')))))"

definition post_unlock_pdf ::
    "'d env \<Rightarrow> jstring option \<Rightarrow> jstring option \<Rightarrow> world \<Rightarrow> response \<times> world" where
  "post_unlock_pdf env sessionId password w =
     (case unlock_pdf_try env sessionId password w of
        (Inr r, w') \<Rightarrow> (r, w')
      | (Inl error, w') \<Rightarrow>
          (server_error ''Failed to unlock PDF'' error, console_error ''Error unlocking PDF:'' w'))"

section \<open>Parsing the model's answer\<close>

definition JSON_parse :: "'d env \<Rightarrow> jstring \<Rightarrow> js_error + json" where
  "JSON_parse env s = (case json_parse env s of None \<Rightarrow> Inl SyntaxError | Some v \<Rightarrow> Inr v)"

text \<open>
  The \<open>try\<close> block of both analysis handlers: the fenced capture when there is a match
  with a non-empty group, else the brace span, else a throw.
\<close>

definition extract_json :: "'d env \<Rightarrow> jstring \<Rightarrow> js_error + json" where
  "extract_json env analysisText =
     (let jsonMatch = fenced_capture analysisText
      in if (case jsonMatch of None \<Rightarrow> False | Some g \<Rightarrow> g \<noteq> [])
         then JSON_parse env (trim (case jsonMatch of Some g \<Rightarrow> g | None \<Rightarrow> []))
         else (case brace_span analysisText of
                 Some fallbackMatch \<Rightarrow> JSON_parse env fallbackMatch
               | None \<Rightarrow> Inl (Error (Some (js ''No JSON found in response'')))))"

text \<open>The object each handler builds in the \<open>catch\<close> of that block.\<close>

definition analyze_text_fallback :: "jstring \<Rightarrow> json" where
  "analyze_text_fallback analysisText =
     JObj [(js ''summary'',
              JObj [(js ''totalDeposits'', JNum 0),
                    (js ''totalWithdrawals'', JNum 0),
                    (js ''netFlow'', JNum 0),
                    (js ''error'', JStr (js ''Analysis completed but formatting failed''))]),
           (js ''categories'', JObj []),
           (js ''alerts'', JArr [JStr (js ''Analysis completed but data formatting failed'')]),
           (js ''rawResponse'', JStr (substring analysisText 0 1000))]"

definition process_pdf_fallback :: "jstring \<Rightarrow> json" where
  "process_pdf_fallback analysisText =
     JObj [(js ''summary'',
              JObj [(js ''error'', JStr (js ''Analysis completed but formatting failed''))]),
           (js ''rawResponse'', JStr (substring analysisText 0 1000))]"

definition parse_or :: "'d env \<Rightarrow> (jstring \<Rightarrow> json) \<Rightarrow> jstring \<Rightarrow> world \<Rightarrow> json \<times> world" where
  "parse_or env fallback analysisText w =
     (case extract_json env analysisText of
        Inr analysis \<Rightarrow> (analysis, w)
      | Inl parseError \<Rightarrow>
          (fallback analysisText, console_error ''Failed to parse Gemini response:'' w))"

definition modelName :: "jstring \<Rightarrow> jstring" where
  "modelName text =
     (if length text > 150000 then js ''gemini-2.5-pro'' else js ''gemini-2.5-flash'')"

definition analysis_answer :: "json \<Rightarrow> json option \<Rightarrow> jstring \<Rightarrow> response" where
  "analysis_answer analysis documentType text =
     JsonResponse 200
       [(js ''status'', lit ''success''),
        (js ''analysis'', Some analysis),
        (js ''documentType'', documentType),
        (js ''textLength'', Some (JNum (of_nat (length text))))]"

section \<open>POST /api/analyze-text\<close>

text \<open>
  \<open>text\<close> is a string of the request body or undefined; \<open>documentType\<close> is any JSON
  value or undefined, and \<open>documentType === 'bank'\<close> holds for the string \<open>bank\<close> only.
\<close>

definition analyze_text_try ::
    "'d env \<Rightarrow> jstring option \<Rightarrow> json option \<Rightarrow> world \<Rightarrow> (js_error + response) \<times> world" where
  "analyze_text_try env req_text documentType w =
     (case req_text of
        None \<Rightarrow> (Inr (JsonResponse 400 [(js ''error'', lit ''No text provided for analysis'')]), w)
      | Some text \<Rightarrow>
          (if text = []
           then (Inr (JsonResponse 400 [(js ''error'', lit ''No text provided for analysis'')]), w)
           else
             (let prompt = (if documentType = Some (JStr (js ''bank''))
                            then getBankStatementPrompt text
                            else getCreditCardPrompt text)
              in case generateContent env (modelName text) prompt of
                   Inl e \<Rightarrow> (Inl e, w)
                 | Inr analysisText \<Rightarrow>
                     (case parse_or env analyze_text_fallback analysisText w of
                        (analysis, w') \<Rightarrow>
                          (Inr (analysis_answer analysis documentType text), w')))))"

definition post_analyze_text ::
    "'d env \<Rightarrow> jstring option \<Rightarrow> json option \<Rightarrow> world \<Rightarrow> response \<times> world" where
  "post_analyze_text env req_text documentType w =
     (case analyze_text_try env req_text documentType w of
        (Inr r, w') \<Rightarrow> (r, w')
      | (Inl error, w') \<Rightarrow>
          (server_error ''Failed to analyze document'' error,
           console_error ''Error analyzing text:'' w'))"

section \<open>POST /api/process-pdf\<close>

text \<open>
  The handler reads \<open>sessionId\<close> and \<open>type\<close> from the body. An undefined \<open>sessionId\<close>
  is interpolated as \<open>undefined\<close> into the file name.
\<close>

definition interpolate :: "jstring option \<Rightarrow> jstring" where
  "interpolate s = (case s of None \<Rightarrow> js ''undefined'' | Some v \<Rightarrow> v)"

definition process_pdf_try ::
    "'d env \<Rightarrow> jstring option \<Rightarrow> json option \<Rightarrow> world \<Rightarrow> (js_error + response) \<times> world" where
  "process_pdf_try env sessionId type w =
     (case getTemporaryFile env (interpolate sessionId) w of
        (None, w1) \<Rightarrow>
          (Inr (JsonResponse 404 [(js ''error'', lit ''Session expired or file not found'')]), w1)
      | (Some pdfBuffer, w1) \<Rightarrow>
          (case pdf_text env pdfBuffer of
             Inl e \<Rightarrow> (Inl e, w1)
           | Inr extractedText \<Rightarrow>
               (case deleteTemporaryFile env (interpolate sessionId) w1 of
                  (Inl e, w2) \<Rightarrow> (Inl e, w2)
                | (Inr u, w2) \<Rightarrow>
                    (let prompt = (if type = Some (JStr (js ''bank''))
                                   then getBankStatementPrompt extractedText
                                   else getCreditCardPrompt extractedText)
                     in case generateContent env (modelName extractedText) prompt of
                          Inl e \<Rightarrow> (Inl e, w2)
                        | Inr analysisText \<Rightarrow>
                            (case parse_or env process_pdf_fallback analysisText w2 of
                               (analysis, w3) \<Rightarrow>
                                 (Inr (analysis_answer analysis type extractedText), w3))))))"

definition post_process_pdf ::
    "'d env \<Rightarrow> jstring option \<Rightarrow> json option \<Rightarrow> world \<Rightarrow> response \<times> world" where
  "post_process_pdf env sessionId type w =
     (case process_pdf_try env sessionId type w of
        (Inr r, w') \<Rightarrow> (r, w')
      | (Inl error, w') \<Rightarrow>
          (server_error ''Failed to process PDF'' error, console_error ''Error processing PDF:'' w'))"

section \<open>The report renderer\<close>

text \<open>The elements of a value that passed \<open>Array.isArray\<close>.\<close>

definition elements :: "json option \<Rightarrow> json list" where
  "elements v = (case v of Some (JArr xs) \<Rightarrow> xs | _ \<Rightarrow> [])"

text \<open>
  The row object that \<open>createBankStatementExcel\<close> builds for the transaction \<open>t\<close>; its
  properties are evaluated in the order of the literal.
\<close>

definition bank_transaction_row :: "json \<Rightarrow> js_error + json" where
  "bank_transaction_row t =
     and_then (get_prop t (js ''date'')) (\<lambda>date.
     and_then (get_prop t (js ''description'')) (\<lambda>description.
     and_then (get_prop t (js ''debit'')) (\<lambda>debit.
     and_then (get_prop t (js ''credit'')) (\<lambda>credit.
     and_then (get_prop t (js ''balance'')) (\<lambda>balance.
     and_then (get_prop t (js ''category'')) (\<lambda>category.
       Inr (JObj [(js ''date'', js_or date (JStr [])),
                  (js ''description'', js_or description (JStr [])),
                  (js ''debit'', js_or debit (JNum 0)),
                  (js ''credit'', js_or credit (JNum 0)),
                  (js ''balance'', js_or balance (JNum 0)),
                  (js ''category'', js_or category (JStr []))])))))))"

text \<open>\<open>{ metric: label, value: summary[k] || 0 }\<close>\<close>

definition summary_row :: "json \<Rightarrow> string \<Rightarrow> string \<Rightarrow> js_error + json" where
  "summary_row summary label k =
     and_then (get_prop summary (js k)) (\<lambda>v.
       Inr (JObj [(js ''metric'', JStr (js label)), (js ''value'', js_or v (JNum 0))]))"

definition metric_row :: "jstring \<Rightarrow> jstring \<Rightarrow> json" where
  "metric_row m v = JObj [(js ''metric'', JStr m), (js ''value'', JStr v)]"

text \<open>
  The row of one entry \<open>[cat, data]\<close> of \<open>Object.entries(analysis.categories)\<close>; the
  value is a template literal that starts with the rupee sign U+20B9, and its two
  interpolations are evaluated and converted to strings from left to right.
\<close>

definition category_row :: "'d env \<Rightarrow> jstring \<times> json \<Rightarrow> js_error + json" where
  "category_row env entry =
     (case entry of (cat, data) \<Rightarrow>
        and_then (get_prop data (js ''total'')) (\<lambda>total.
        and_then (toString env (js_or total (JNum 0))) (\<lambda>totalText.
        and_then (get_prop data (js ''count'')) (\<lambda>count.
        and_then (toString env (js_or count (JNum 0))) (\<lambda>countText.
          Inr (metric_row (toUpperCase env cat)
                 ([0x20B9] @ totalText @ js '' ('' @ countText @ js '' transactions)'')))))))"

definition createBankStatementExcel :: "'d env \<Rightarrow> workbook \<Rightarrow> json \<Rightarrow> js_error + workbook" where
  "createBankStatementExcel env workbook analysis =
     and_then (get_prop analysis (js ''transactions'')) (\<lambda>transactions.
     and_then (if truthy transactions \<and> isArray transactions
               then forEach bank_transaction_row (elements transactions)
               else Inr []) (\<lambda>rawRows.
     and_then (get_prop analysis (js ''summary'')) (\<lambda>summary.
     and_then (if truthy summary
               then (let s = (case summary of Some v \<Rightarrow> v | None \<Rightarrow> JNull)
                     in forEach (\<lambda>(label, k). summary_row s label k)
                          [(''Total Deposits'', ''totalDeposits''),
                           (''Total Withdrawals'', ''totalWithdrawals''),
                           (''Net Flow'', ''netFlow''),
                           (''Transaction Count'', ''transactionCount''),
                           (''Average Daily Spending'', ''avgDailySpending'')])
               else Inr []) (\<lambda>summaryRows.
     and_then (get_prop analysis (js ''categories'')) (\<lambda>categories.
     and_then (if truthy categories
               then forEach (category_row env)
                      (entries (case categories of Some v \<Rightarrow> v | None \<Rightarrow> JNull))
               else Inr []) (\<lambda>categoryRows.
       Inr (workbook @
            [\<lparr>sheet_name = js ''All Transactions'',
              columns = [col ''Date'' ''date'' 15, col ''Description'' ''description'' 40,
                         col ''Debit'' ''debit'' 15, col ''Credit'' ''credit'' 15,
                         col ''Balance'' ''balance'' 15, col ''Category'' ''category'' 15],
              rows = rawRows\<rparr>,
             \<lparr>sheet_name = js ''Summary'',
              columns = [col ''Metric'' ''metric'' 30, col ''Value'' ''value'' 20],
              rows = summaryRows @
                     [metric_row [] [], metric_row (js ''Category Breakdown'') []] @
                     categoryRows\<rparr>])))))))"

text \<open>
  \<open>createCreditCardExcel\<close> hands each transaction and each subscription to \<open>addRow\<close>
  as it is.
\<close>

definition createCreditCardExcel :: "workbook \<Rightarrow> json \<Rightarrow> js_error + workbook" where
  "createCreditCardExcel workbook analysis =
     and_then (get_prop analysis (js ''transactions'')) (\<lambda>transactions.
     and_then (get_prop analysis (js ''subscriptions'')) (\<lambda>subscriptions.
     and_then (get_prop analysis (js ''summary'')) (\<lambda>summary.
     and_then (if truthy summary
               then (let s = (case summary of Some v \<Rightarrow> v | None \<Rightarrow> JNull)
                     in forEach (\<lambda>(label, k). summary_row s label k)
                          [(''Total Spent'', ''totalSpent''),
                           (''Payment Made'', ''paymentMade''),
                           (''Outstanding Balance'', ''outstandingBalance'')])
               else Inr []) (\<lambda>summaryRows.
       Inr (workbook @
            [\<lparr>sheet_name = js ''Transactions'',
              columns = [col ''Date'' ''date'' 15, col ''Merchant'' ''merchant'' 35,
                         col ''Amount'' ''amount'' 15, col ''Category'' ''category'' 20],
              rows = (if truthy transactions \<and> isArray transactions
                      then elements transactions else [])\<rparr>,
             \<lparr>sheet_name = js ''Subscriptions'',
              columns = [col ''Service'' ''merchant'' 30, col ''Amount'' ''amount'' 15,
                         col ''Frequency'' ''frequency'' 15, col ''Category'' ''category'' 20],
              rows = (if truthy subscriptions \<and> isArray subscriptions
                      then elements subscriptions else [])\<rparr>,
             \<lparr>sheet_name = js ''Summary'',
              columns = [col ''Metric'' ''metric'' 30, col ''Value'' ''value'' 20],
              rows = summaryRows\<rparr>])))))"

section \<open>POST /api/generate-report\<close>

definition generate_report_try :: "'d env \<Rightarrow> json option \<Rightarrow> json option \<Rightarrow> js_error + response" where
  "generate_report_try env analysis documentType =
     (if \<not> truthy analysis
      then Inr (JsonResponse 400 [(js ''error'', lit ''Analysis data is required'')])
      else
        (let a = (case analysis of Some v \<Rightarrow> v | None \<Rightarrow> JNull)
         in and_then (if documentType = Some (JStr (js ''bank''))
                      then createBankStatementExcel env [] a
                      else createCreditCardExcel [] a) (\<lambda>workbook.
            and_then (writeBuffer env workbook) (\<lambda>buffer.
              Inr (Download
                     [(js ''Content-Type'',
                       js ''application/vnd.openxmlformats-officedocument.spreadsheetml.sheet''),
                      (js ''Content-Disposition'',
                       js ''attachment; filename=statement_analysis_'' @
                       show_nat (date_now env) @ js ''.xlsx'')]
                     buffer)))))"

definition post_generate_report ::
    "'d env \<Rightarrow> json option \<Rightarrow> json option \<Rightarrow> world \<Rightarrow> response \<times> world" where
  "post_generate_report env analysis documentType w =
     (case generate_report_try env analysis documentType of
        Inr r \<Rightarrow> (r, w)
      | Inl error \<Rightarrow>
          (server_error ''Failed to generate report'' error,
           console_error ''Error generating report:'' w))"

section \<open>A sample environment\<close>

text \<open>
  A small environment for evaluating the handlers: a PDF whose first byte is \<open>0x45\<close>
  is encrypted with the password \<open>secret\<close>, one that starts with \<open>0x25\<close> is
  plain, anything else is not a PDF; the text of a plain PDF is its bytes, and the
  extraction throws on anything else; the parser knows two
  JSON texts; the text generation API answers \<open>answer\<close>; the disk has no faults.
  The sample store holds a plain PDF under \<open>s1\<close>, an encrypted one under \<open>s2\<close> and a
  file that is not a PDF under \<open>s3\<close>.
\<close>

definition sample_load :: "bytes \<Rightarrow> jstring option \<Rightarrow> js_error + bytes" where
  \<open>sample_load b password =
     (case b of
        [] \<Rightarrow> Inl (Error (Some (js ''Failed to parse PDF document'')))
      | x # xs \<Rightarrow>
          (if x = 0x45
           then (case password of
                   None \<Rightarrow> Inl (Error (Some (js ''Input document to `PDFDocument.load` is encrypted.'')))
                 | Some p \<Rightarrow>
                     (if p = js ''secret'' then Inr xs
                      else Inl (Error (Some (js ''Incorrect password'')))))
           else if x = 0x25 then Inr (x # xs)
           else Inl (Error (Some (js ''Failed to parse PDF document'')))))\<close>

definition sample_text :: "bytes \<Rightarrow> js_error + jstring" where
  "sample_text b =
     (case b of
        [] \<Rightarrow> Inl (Error (Some (js ''Invalid PDF structure'')))
      | x # xs \<Rightarrow>
          (if x = 0x25 then Inr (map ucast (x # xs))
           else Inl (Error (Some (js ''Invalid PDF structure'')))))"

definition sample_parse :: "jstring \<Rightarrow> json option" where
  \<open>sample_parse s =
     (if s = js ''{}'' then Some (JObj [])
      else if s = js ''{"a":1}'' then Some (JObj [(js ''a'', JNum 1)])
      else None)\<close>

text \<open>
  The conversion of the sample environment: a string is itself, an object with an own
  property \<open>toString\<close> (never a function in a JSON value) yields no primitive and
  throws, any other object is \<open>[object Object]\<close>; the other values are not rendered.
\<close>

definition sample_toString :: "json \<Rightarrow> js_error + jstring" where
  "sample_toString v =
     (case v of
        JStr s \<Rightarrow> Inr s
      | JObj kvs \<Rightarrow>
          (if map_of kvs (js ''toString'') = None then Inr (js ''[object Object]'')
           else Inl (Error (Some (js ''Cannot convert object to primitive value''))))
      | _ \<Rightarrow> Inr [])"

definition sample_env :: "js_error + jstring \<Rightarrow> bytes env" where
  "sample_env answer =
     \<lparr>load_pdf = sample_load,
      save_pdf = (\<lambda>d. Inr d),
      pdf_text = sample_text,
      generateContent = (\<lambda>m p. answer),
      json_parse = sample_parse,
      writeBuffer = (\<lambda>wb. Inr []),
      toUpperCase = (\<lambda>s. s),
      toString = sample_toString,
      date_now = 1700000000000,
      random36 = js ''k3j9x0q2a'',
      fs_fault = (\<lambda>op p. None)\<rparr>"

text \<open>
  The sample environment with the load of pdf-lib as published: its load options have no
  password, and an encrypted document makes it throw the same error whatever password
  is passed.
\<close>

definition pdflib_load :: "bytes \<Rightarrow> jstring option \<Rightarrow> js_error + bytes" where
  \<open>pdflib_load b password =
     (case b of
        [] \<Rightarrow> Inl (Error (Some (js ''Failed to parse PDF document'')))
      | x # xs \<Rightarrow>
          (if x = 0x45
           then Inl (Error (Some (js ''Input document to `PDFDocument.load` is encrypted. You can use `PDFDocument.load(..., { ignoreEncryption: true })` if you wish to load the document anyways.'')))
           else if x = 0x25 then Inr (x # xs)
           else Inl (Error (Some (js ''Failed to parse PDF document'')))))\<close>

definition pdflib_env :: "bytes env" where
  "pdflib_env = (sample_env (Inr []))\<lparr>load_pdf := pdflib_load\<rparr>"

text \<open>
  The sample environment with a text generation API that answers \<open>{}\<close> to the credit
  card prompt of the text \<open>t\<close> and fails on every other prompt.
\<close>

definition credit_prompt_env :: "jstring \<Rightarrow> bytes env" where
  "credit_prompt_env t =
     (sample_env (Inr []))
       \<lparr>generateContent :=
          (\<lambda>model prompt.
             if prompt = getCreditCardPrompt t then Inr (js ''{}'')
             else Inl (Error (Some (js ''not the credit card prompt''))))\<rparr>"

text \<open>The same environment on a disk where every operation fails.\<close>

definition faulty_env :: "bytes env" where
  "faulty_env =
     (sample_env (Inr []))
       \<lparr>fs_fault := (\<lambda>op p. Some (Error (Some (js ''EPERM: operation not permitted''))))\<rparr>"

definition sample_world :: world where
  "sample_world =
     \<lparr>files = [tempPath (js ''s1'') \<mapsto> [0x25, 0x50, 0x44, 0x46],
               tempPath (js ''s2'') \<mapsto> [0x45, 0x25, 0x50, 0x44, 0x46],
               tempPath (js ''s3'') \<mapsto> [0x00]],
      errlog = []\<rparr>"

text \<open>
  A store that already holds a file under the session id the sample environment
  generates next.
\<close>

definition crowded_world :: world where
  "crowded_world =
     \<lparr>files = [tempPath (js ''session_1700000000000_k3j9x0q2a'') \<mapsto> [0x01]], errlog = []\<rparr>"

definition plain_upload :: upload where
  "plain_upload =
     \<lparr>originalname = js ''a.pdf'', file_size = 4, buffer = [0x25, 0x50, 0x44, 0x46]\<rparr>"

definition locked_upload :: upload where
  "locked_upload =
     \<lparr>originalname = js ''b.pdf'', file_size = 5, buffer = [0x45, 0x25, 0x50, 0x44, 0x46]\<rparr>"

definition broken_upload :: upload where
  "broken_upload = \<lparr>originalname = js ''c.pdf'', file_size = 1, buffer = [0x00]\<rparr>"

section \<open>Comparing answers up to the echoed document type\<close>

text \<open>
  The analysis handlers echo the document type of the request in the property
  \<open>documentType\<close> of their answer; \<open>with_documentType\<close> replaces that property.
\<close>

definition with_documentType :: "json option \<Rightarrow> response \<Rightarrow> response" where
  "with_documentType documentType r =
     (case r of
        JsonResponse n body \<Rightarrow>
          JsonResponse n
            (map (\<lambda>(k, v). if k = js ''documentType'' then (k, documentType) else (k, v)) body)
      | Download headers content \<Rightarrow> Download headers content)"

section \<open>The extraction policy in the words of the specification\<close>

text \<open>
  The specification names the second choice of the extraction policy "the first
  top-level \<open>{...}\<close> span in the text". This definition follows those words, for
  comparison with \<open>brace_span\<close>: the span starts at the first \<open>{\<close> and ends at the
  \<open>}\<close> that closes it. \<open>close_span d s\<close> reads \<open>s\<close> with \<open>d\<close> braces open inside
  the span.
\<close>

fun close_span :: "nat \<Rightarrow> jstring \<Rightarrow> jstring option" where
  "close_span d [] = None"
| "close_span d (c # cs) =
     (if c = 0x7B then map_option ((#) c) (close_span (Suc d) cs)
      else if c = 0x7D
      then (case d of 0 \<Rightarrow> Some [c] | Suc d' \<Rightarrow> map_option ((#) c) (close_span d' cs))
      else map_option ((#) c) (close_span d cs))"

definition first_top_level_span :: "jstring \<Rightarrow> jstring option" where
  "first_top_level_span t =
     (case dropWhile (\<lambda>c. c \<noteq> 0x7B) t of
        [] \<Rightarrow> None
      | b # rest \<Rightarrow> map_option ((#) b) (close_span 0 rest))"

section \<open>A sample analysis\<close>

text \<open>
  An analysis with one transaction that has a date and a debit only, and one
  subscription that has a merchant only.
\<close>

definition sample_analysis :: json where
  "sample_analysis =
     JObj [(js ''transactions'',
            JArr [JObj [(js ''date'', JStr (js ''01/02/2024'')), (js ''debit'', JNum 250)]]),
           (js ''subscriptions'',
            JArr [JObj [(js ''merchant'', JStr (js ''Netflix''))]])]"

section \<open>Properties of the prompt builder\<close>

lemma length_js [simp]: "length (js s) = length s"
  by (simp add: js_def)

lemma length_unlines: "length (unlines ls) = sum_list (map length ls) + (length ls - 1)"
  by (induction ls rule: unlines.induct) simp_all

lemma len_bank_intro: "length bankPrompt_intro = 279"
  by (simp add: bankPrompt_intro_def length_unlines)

lemma len_bank_rules: "length bankPrompt_rules = 90"
  by (simp add: bankPrompt_rules_def length_unlines)

lemma len_bank_schema: "length bankPrompt_schema = 2709"
  by (simp add: bankPrompt_schema_def length_unlines)

lemma len_credit_schema: "length creditPrompt_schema = 2105"
  by (simp add: creditPrompt_schema_def length_unlines)

lemma js_includes_iff: "js_includes s p \<longleftrightarrow> (\<exists>a b. s = a @ p @ b)"
proof (induction s)
  case Nil
  then show ?case by auto
next
  case (Cons x xs)
  show ?case
  proof
    assume "js_includes (x # xs) p"
    then consider "prefix p (x # xs)" | "js_includes xs p" by auto
    then show "\<exists>a b. x # xs = a @ p @ b"
    proof cases
      case 1
      then obtain b where "x # xs = p @ b" by (auto simp: prefix_def)
      then have "x # xs = [] @ p @ b" by simp
      then show ?thesis by blast
    next
      case 2
      with Cons.IH obtain a b where "xs = a @ p @ b" by blast
      then have "x # xs = (x # a) @ p @ b" by simp
      then show ?thesis by blast
    qed
  next
    assume "\<exists>a b. x # xs = a @ p @ b"
    then obtain a b where ab: "x # xs = a @ p @ b" by blast
    show "js_includes (x # xs) p"
    proof (cases a)
      case Nil
      with ab have "prefix p (x # xs)" unfolding prefix_def by auto
      then show ?thesis by simp
    next
      case (Cons y ys)
      with ab have "xs = ys @ p @ b" by simp
      with Cons.IH show ?thesis by auto
    qed
  qed
qed

lemma js_includes_length: "js_includes s p \<Longrightarrow> length p \<le> length s"
  by (auto simp: js_includes_iff)

lemma substring_head: "0 \<le> k \<Longrightarrow> substring s 0 k = take (nat k) s"
  by (simp add: substring_def Let_def min_def max_def)

lemma substring_from_tail:
  "substring_from s (int (length s) - int k) = drop (length s - k) s"
  by (simp add: substring_from_def substring_def Let_def min_def max_def nat_diff_distrib')

lemma textToAnalyze_oversized:
  "length text > 500000 \<Longrightarrow>
   textToAnalyze text =
     take 100000 text @ omission_marker @ drop (length text - 100000) text"
  using substring_head [of 100000 "text"] substring_from_tail [of "text" 100000]
  by (simp add: textToAnalyze_def Let_def)

lemma omission_marker_eq:
  "omission_marker = 0x0A # js ''...[MIDDLE SECTION OMITTED FOR LENGTH]...'' @ [0x0A]"
  by (simp add: omission_marker_def js_def)

lemma isLargeStatement_oversized: "length text > 500000 \<Longrightarrow> isLargeStatement text"
  by (simp add: isLargeStatement_def)

lemma js_includesI: "s = a @ p @ b \<Longrightarrow> js_includes s p"
  by (auto simp: js_includes_iff)

lemma bank_prompt_oversized:
  assumes "length text > 500000"
  shows "getBankStatementPrompt text =
           (bankPrompt_intro @ [0x20B9] @ bankPrompt_rules @
            js ''Include ONLY the 50 largest transactions'' @ bankPrompt_schema) @
           take 100000 text @ omission_marker @ drop (length text - 100000) text @
           prompt_tail"
  using assms
  by (simp add: getBankStatementPrompt_def textToAnalyze_oversized isLargeStatement_oversized)

lemma credit_prompt_oversized:
  assumes "length text > 500000"
  shows "getCreditCardPrompt text =
           creditPrompt_schema @
           take 100000 text @ omission_marker @ drop (length text - 100000) text @
           prompt_tail"
  using assms by (simp add: getCreditCardPrompt_def textToAnalyze_oversized)

lemma windows_in_frame:
  fixes pre :: jstring
  assumes p: "prompt = pre @ take 100000 text @ omission_marker @
                drop (length text - 100000) text @ prompt_tail"
    and long: "length text > 500000"
    and pre: "length pre \<le> 4000"
  shows "js_includes prompt (take 100000 text) \<and>
         js_includes prompt (js ''...[MIDDLE SECTION OMITTED FOR LENGTH]...'') \<and>
         js_includes prompt (drop (length text - 100000) text) \<and>
         \<not> js_includes prompt text"
proof (intro conjI)
  show "js_includes prompt (take 100000 text)"
    using p by (rule js_includesI)
  have "prompt = (pre @ take 100000 text @ [0x0A]) @
          js ''...[MIDDLE SECTION OMITTED FOR LENGTH]...'' @
          ([0x0A] @ drop (length text - 100000) text @ prompt_tail)"
    by (simp add: p omission_marker_eq)
  then show "js_includes prompt (js ''...[MIDDLE SECTION OMITTED FOR LENGTH]...'')"
    by (rule js_includesI)
  have "prompt = (pre @ take 100000 text @ omission_marker) @
          drop (length text - 100000) text @ prompt_tail"
    by (simp add: p)
  then show "js_includes prompt (drop (length text - 100000) text)"
    by (rule js_includesI)
  have "length prompt < length text"
    using long pre by (simp add: p omission_marker_eq prompt_tail_def)
  then show "\<not> js_includes prompt text"
    using js_includes_length [of prompt "text"] by auto
qed

text \<open>
  C4. For a text of more than 500000 code units both builders return the fixed template
  text around the first 100000 code units of the input, the omission marker and the last
  100000 code units, in this order: the prompt is a function of these two windows alone.
  It contains the head window, the marker
  \<open>...[MIDDLE SECTION OMITTED FOR LENGTH]...\<close> and the tail window, and it does not
  contain the input text.
\<close>

theorem oversized_prompt_head_marker_tail:
  assumes "length text > 500000"
  shows "(getBankStatementPrompt text =
            (bankPrompt_intro @ [0x20B9] @ bankPrompt_rules @
             js ''Include ONLY the 50 largest transactions'' @ bankPrompt_schema) @
            take 100000 text @ omission_marker @ drop (length text - 100000) text @
            prompt_tail \<and>
          js_includes (getBankStatementPrompt text) (take 100000 text) \<and>
          js_includes (getBankStatementPrompt text)
            (js ''...[MIDDLE SECTION OMITTED FOR LENGTH]...'') \<and>
          js_includes (getBankStatementPrompt text) (drop (length text - 100000) text) \<and>
          \<not> js_includes (getBankStatementPrompt text) text) \<and>
         (getCreditCardPrompt text =
            creditPrompt_schema @
            take 100000 text @ omission_marker @ drop (length text - 100000) text @
            prompt_tail \<and>
          js_includes (getCreditCardPrompt text) (take 100000 text) \<and>
          js_includes (getCreditCardPrompt text)
            (js ''...[MIDDLE SECTION OMITTED FOR LENGTH]...'') \<and>
          js_includes (getCreditCardPrompt text) (drop (length text - 100000) text) \<and>
          \<not> js_includes (getCreditCardPrompt text) text)"
proof -
  have b: "length (bankPrompt_intro @ [0x20B9] @ bankPrompt_rules @
             js ''Include ONLY the 50 largest transactions'' @ bankPrompt_schema) \<le> 4000"
    by (simp add: len_bank_intro len_bank_rules len_bank_schema)
  have c: "length creditPrompt_schema \<le> 4000"
    by (simp add: len_credit_schema)
  show ?thesis
    using windows_in_frame [OF bank_prompt_oversized [OF assms] assms b]
      windows_in_frame [OF credit_prompt_oversized [OF assms] assms c]
      bank_prompt_oversized [OF assms] credit_prompt_oversized [OF assms]
    by blast
qed

theorem oversized_prompt_witness:
  "length (replicate 500001 (0x41 :: 16 word)) > 500000 \<and>
   js_includes (getBankStatementPrompt (replicate 500001 0x41))
     (js ''...[MIDDLE SECTION OMITTED FOR LENGTH]...'') \<and>
   \<not> js_includes (getBankStatementPrompt (replicate 500001 0x41)) (replicate 500001 0x41) \<and>
   js_includes (getCreditCardPrompt (replicate 500001 0x41))
     (js ''...[MIDDLE SECTION OMITTED FOR LENGTH]...'') \<and>
   \<not> js_includes (getCreditCardPrompt (replicate 500001 0x41)) (replicate 500001 0x41)"
proof -
  have h: "length (replicate 500001 (0x41 :: 16 word)) > 500000" by simp
  show ?thesis
    using h oversized_prompt_head_marker_tail [OF h] by blast
qed

section \<open>The sample environment, evaluated\<close>

lemma sample_env_simps [simp]:
  "load_pdf (sample_env a) = sample_load"
  "save_pdf (sample_env a) = (\<lambda>d. Inr d)"
  "pdf_text (sample_env a) = sample_text"
  "generateContent (sample_env a) = (\<lambda>m p. a)"
  "json_parse (sample_env a) = sample_parse"
  "writeBuffer (sample_env a) = (\<lambda>wb. Inr [])"
  "toUpperCase (sample_env a) = (\<lambda>s. s)"
  "toString (sample_env a) = sample_toString"
  "date_now (sample_env a) = 1700000000000"
  "random36 (sample_env a) = js ''k3j9x0q2a''"
  "fs_fault (sample_env a) = (\<lambda>op p. None)"
  by (simp_all add: sample_env_def)

lemma tempPath_inj [simp]: "tempPath a = tempPath b \<longleftrightarrow> a = b"
  by (simp add: tempPath_def)

lemma sample_extract_object:
  "extract_json (sample_env a) (js ''{}'') = Inr (JObj [])"
  by (simp add: extract_json_def fenced_capture_def brace_span_def fence_open_def
      JSON_parse_def sample_parse_def js_def)

lemma sample_extract_none:
  "extract_json (sample_env a) (js ''no json here'') =
     Inl (Error (Some (js ''No JSON found in response'')))"
  by (simp add: extract_json_def fenced_capture_def brace_span_def fence_open_def
      JSON_parse_def sample_parse_def js_def)

lemma sample_text_s1: "pdf_text (sample_env a) [0x25, 0x50, 0x44, 0x46] = Inr (js ''%PDF'')"
  by (simp add: sample_text_def js_def)

lemma files_s1: "files sample_world (tempPath (js ''s1'')) = Some [0x25, 0x50, 0x44, 0x46]"
  by (simp add: sample_world_def js_def)

section \<open>Properties of the temporary file store\<close>

text \<open>
  C8. \<open>deleteTemporaryFile\<close> returns normally for every session id, whatever the file
  system does: when \<open>unlink\<close> succeeds the entry is removed, and when it fails (the
  entry is already gone, or any other fault) the store is unchanged and the failure is
  only written to the error log. \<open>getTemporaryFile\<close> on an absent entry, or on any
  failure of the read, returns \<open>null\<close> and does not throw.
\<close>

theorem temp_store_delete_and_load:
  "fst (deleteTemporaryFile env sessionId w) = Inr () \<and>
   (fs_fault env Unlink (tempPath sessionId) = None \<and> files w (tempPath sessionId) \<noteq> None \<longrightarrow>
      snd (deleteTemporaryFile env sessionId w) =
        w\<lparr>files := (files w)(tempPath sessionId := None)\<rparr>) \<and>
   (fs_fault env Unlink (tempPath sessionId) \<noteq> None \<or> files w (tempPath sessionId) = None \<longrightarrow>
      snd (deleteTemporaryFile env sessionId w) =
        console_error ''Error deleting temp file:'' w) \<and>
   (fs_fault env ReadFile (tempPath sessionId) \<noteq> None \<or> files w (tempPath sessionId) = None \<longrightarrow>
      getTemporaryFile env sessionId w = (None, console_error ''File not found:'' w))"
  by (auto simp: deleteTemporaryFile_def unlink_def getTemporaryFile_def readFile_def
      split: option.splits)

theorem temp_store_witness:
  "files sample_world (tempPath (js ''gone'')) = None \<and>
   deleteTemporaryFile (sample_env (Inr [])) (js ''gone'') sample_world =
     (Inr (), console_error ''Error deleting temp file:'' sample_world) \<and>
   getTemporaryFile (sample_env (Inr [])) (js ''gone'') sample_world =
     (None, console_error ''File not found:'' sample_world) \<and>
   fs_fault (sample_env (Inr [])) Unlink (tempPath (js ''s1'')) = None \<and>
   files sample_world (tempPath (js ''s1'')) \<noteq> None \<and>
   deleteTemporaryFile (sample_env (Inr [])) (js ''s1'') sample_world =
     (Inr (), sample_world\<lparr>files := (files sample_world)(tempPath (js ''s1'') := None)\<rparr>) \<and>
   fs_fault faulty_env Unlink (tempPath (js ''s1'')) \<noteq> None \<and>
   deleteTemporaryFile faulty_env (js ''s1'') sample_world =
     (Inr (), console_error ''Error deleting temp file:'' sample_world) \<and>
   fs_fault faulty_env ReadFile (tempPath (js ''s1'')) \<noteq> None \<and>
   getTemporaryFile faulty_env (js ''s1'') sample_world =
     (None, console_error ''File not found:'' sample_world)"
proof -
  have h: "files sample_world (tempPath (js ''gone'')) = None"
    by (simp add: sample_world_def js_def)
  have k: "files sample_world (tempPath (js ''s1'')) \<noteq> None"
    by (simp add: sample_world_def js_def)
  have f: "fs_fault faulty_env Unlink (tempPath (js ''s1'')) \<noteq> None"
    "fs_fault faulty_env ReadFile (tempPath (js ''s1'')) \<noteq> None"
    by (simp_all add: faulty_env_def)
  show ?thesis
    using h k f
      temp_store_delete_and_load [of "sample_env (Inr [])" "js ''gone''" sample_world]
      temp_store_delete_and_load [of "sample_env (Inr [])" "js ''s1''" sample_world]
      temp_store_delete_and_load [of faulty_env "js ''s1''" sample_world]
    by (simp add: prod_eq_iff)
qed

section \<open>Properties of POST /api/check-pdf\<close>

lemma sample_session_id:
  "generateSessionId (sample_env a) = js ''session_1700000000000_k3j9x0q2a''"
  by (simp add: generateSessionId_def show_nat.simps js_def)

lemma message_encrypted: \<open>message_includes (Error (Some (js ''Input document to `PDFDocument.load` is encrypted.''))) ''encrypted''\<close>
  by (simp add: message_includes_def js_def)

lemma message_not_encrypted: "\<not> message_includes (Error (Some (js ''Failed to parse PDF document''))) ''encrypted''"
  by (simp add: message_includes_def js_def)

text \<open>
  C5, as the handler decides it. For every uploaded PDF, on a disk that takes the write
  of the session file: when loading without a password succeeds, the answer is 200 with
  status \<open>success\<close> and \<open>passwordRequired = false\<close>; when loading fails with a message
  that contains \<open>encrypted\<close>, the answer is 200 with status \<open>password_required\<close> and
  \<open>passwordRequired = true\<close>; in both cases the answer carries the session id
  \<open>session_\<close>, \<open>Date.now()\<close>, \<open>_\<close> and the random suffix, and the bytes are stored
  under that id, in place of whatever the store held there. Every other failure of the
  load is answered 500 with error \<open>Failed to check PDF\<close> and the library's message as
  details.
\<close>

theorem check_pdf_password_verdict:
  assumes "fs_fault env Mkdir (js ''temp'') = None"
    and "fs_fault env WriteFile (tempPath (js ''session_'' @ show_nat (date_now env) @ js ''_'' @ random36 env)) = None"
  shows
    "(\<forall>pdfDoc. load_pdf env (buffer file) None = Inr pdfDoc \<longrightarrow>
        post_check_pdf env (Some file) w =
          (JsonResponse 200
             [(js ''status'', Some (JStr (js ''success''))),
              (js ''passwordRequired'', Some (JBool False)),
              (js ''message'', Some (JStr (js ''No password required. Click to continue.''))),
              (js ''fileName'', Some (JStr (originalname file))),
              (js ''fileSize'', Some (JNum (of_nat (file_size file)))),
              (js ''sessionId'', Some (JStr (js ''session_'' @ show_nat (date_now env) @ js ''_'' @ random36 env)))],
           w\<lparr>files := (files w)
                (tempPath (js ''session_'' @ show_nat (date_now env) @ js ''_'' @ random36 env) \<mapsto> buffer file)\<rparr>)) \<and>
     (\<forall>e. load_pdf env (buffer file) None = Inl e \<and> message_includes e ''encrypted'' \<longrightarrow>
        post_check_pdf env (Some file) w =
          (JsonResponse 200
             [(js ''status'', Some (JStr (js ''password_required''))),
              (js ''passwordRequired'', Some (JBool True)),
              (js ''message'', Some (JStr (js ''This PDF is password protected. Please enter the password.''))),
              (js ''fileName'', Some (JStr (originalname file))),
              (js ''fileSize'', Some (JNum (of_nat (file_size file)))),
              (js ''sessionId'', Some (JStr (js ''session_'' @ show_nat (date_now env) @ js ''_'' @ random36 env)))],
           w\<lparr>files := (files w)
                (tempPath (js ''session_'' @ show_nat (date_now env) @ js ''_'' @ random36 env) \<mapsto> buffer file)\<rparr>)) \<and>
     (\<forall>e. load_pdf env (buffer file) None = Inl e \<and> \<not> message_includes e ''encrypted'' \<longrightarrow>
        post_check_pdf env (Some file) w =
          (JsonResponse 500
             [(js ''error'', Some (JStr (js ''Failed to check PDF''))),
              (js ''details'', map_option JStr (message e))],
           w\<lparr>errlog := errlog w @ [js ''Error checking PDF:'']\<rparr>))"
  using assms
  by (simp add: post_check_pdf_def check_pdf_try_def check_pdf_load_def saveTemporaryFile_def
      writeFile_def generateSessionId_def check_pdf_answer_def server_error_def lit_def
      console_error_def Let_def)

theorem check_pdf_witness:
  \<open>fs_fault (sample_env (Inr [])) Mkdir (js ''temp'') = None \<and>
   fs_fault (sample_env (Inr [])) WriteFile (tempPath (js ''session_1700000000000_k3j9x0q2a'')) = None \<and>
   load_pdf (sample_env (Inr [])) (buffer plain_upload) None = Inr [0x25, 0x50, 0x44, 0x46] \<and>
   post_check_pdf (sample_env (Inr [])) (Some plain_upload) sample_world =
     (JsonResponse 200
             [(js ''status'', Some (JStr (js ''success''))),
              (js ''passwordRequired'', Some (JBool False)),
              (js ''message'', Some (JStr (js ''No password required. Click to continue.''))),
              (js ''fileName'', Some (JStr (js ''a.pdf''))),
              (js ''fileSize'', Some (JNum (4))),
              (js ''sessionId'', Some (JStr (js ''session_1700000000000_k3j9x0q2a'')))],
      sample_world\<lparr>files := (files sample_world)
        (tempPath (js ''session_1700000000000_k3j9x0q2a'') \<mapsto> [0x25, 0x50, 0x44, 0x46])\<rparr>) \<and>
   load_pdf (sample_env (Inr [])) (buffer locked_upload) None =
     Inl (Error (Some (js ''Input document to `PDFDocument.load` is encrypted.''))) \<and>
   message_includes (Error (Some (js ''Input document to `PDFDocument.load` is encrypted.'')))
     ''encrypted'' \<and>
   fst (post_check_pdf (sample_env (Inr [])) (Some locked_upload) sample_world) =
     JsonResponse 200
             [(js ''status'', Some (JStr (js ''password_required''))),
              (js ''passwordRequired'', Some (JBool True)),
              (js ''message'', Some (JStr (js ''This PDF is password protected. Please enter the password.''))),
              (js ''fileName'', Some (JStr (js ''b.pdf''))),
              (js ''fileSize'', Some (JNum (5))),
              (js ''sessionId'', Some (JStr (js ''session_1700000000000_k3j9x0q2a'')))] \<and>
   files (snd (post_check_pdf (sample_env (Inr [])) (Some locked_upload) sample_world))
     (tempPath (js ''session_1700000000000_k3j9x0q2a'')) = Some [0x45, 0x25, 0x50, 0x44, 0x46] \<and>
   load_pdf (sample_env (Inr [])) (buffer broken_upload) None =
     Inl (Error (Some (js ''Failed to parse PDF document''))) \<and>
   \<not> message_includes (Error (Some (js ''Failed to parse PDF document''))) ''encrypted'' \<and>
   fst (post_check_pdf (sample_env (Inr [])) (Some broken_upload) sample_world) =
     JsonResponse 500
       [(js ''error'', Some (JStr (js ''Failed to check PDF''))),
        (js ''details'', Some (JStr (js ''Failed to parse PDF document'')))]\<close>
proof -
  let ?env = "sample_env (Inr []) :: bytes env"
  have i: "js ''session_'' @ show_nat (date_now ?env) @ js ''_'' @ random36 ?env =
      js ''session_1700000000000_k3j9x0q2a''"
    using sample_session_id [of "Inr []"] by (simp add: generateSessionId_def)
  have d: "fs_fault ?env Mkdir (js ''temp'') = None"
    "fs_fault ?env WriteFile
       (tempPath (js ''session_'' @ show_nat (date_now ?env) @ js ''_'' @ random36 ?env)) = None"
    by simp_all
  have l1: "load_pdf ?env (buffer plain_upload) None = Inr [0x25, 0x50, 0x44, 0x46]"
    by (simp add: plain_upload_def sample_load_def)
  have l2: \<open>load_pdf ?env (buffer locked_upload) None =
      Inl (Error (Some (js ''Input document to `PDFDocument.load` is encrypted.'')))\<close>
    by (simp add: locked_upload_def sample_load_def)
  have l3: "load_pdf ?env (buffer broken_upload) None =
      Inl (Error (Some (js ''Failed to parse PDF document'')))"
    by (simp add: broken_upload_def sample_load_def)
  have u: "originalname plain_upload = js ''a.pdf''" "file_size plain_upload = 4"
    "buffer plain_upload = [0x25, 0x50, 0x44, 0x46]"
    "originalname locked_upload = js ''b.pdf''" "file_size locked_upload = 5"
    "buffer locked_upload = [0x45, 0x25, 0x50, 0x44, 0x46]"
    by (simp_all add: plain_upload_def locked_upload_def)
  show ?thesis
    using l1 l2 l3 message_encrypted message_not_encrypted
      check_pdf_password_verdict [OF d, of plain_upload sample_world]
      check_pdf_password_verdict [OF d, of locked_upload sample_world]
      check_pdf_password_verdict [OF d, of broken_upload sample_world]
    unfolding i u
    by simp
qed

text \<open>
  The claim as stated calls the session id fresh. The handler does not compare the id it
  generates with the ids in the store: when a file is already stored under that id, the
  answer carries the id all the same and the upload replaces the stored file.
\<close>

theorem check_pdf_session_id_not_fresh:
  "files crowded_world (tempPath (js ''session_1700000000000_k3j9x0q2a'')) = Some [0x01] \<and>
   fst (post_check_pdf (sample_env (Inr [])) (Some plain_upload) crowded_world) =
     JsonResponse 200
             [(js ''status'', Some (JStr (js ''success''))),
              (js ''passwordRequired'', Some (JBool False)),
              (js ''message'', Some (JStr (js ''No password required. Click to continue.''))),
              (js ''fileName'', Some (JStr (js ''a.pdf''))),
              (js ''fileSize'', Some (JNum (4))),
              (js ''sessionId'', Some (JStr (js ''session_1700000000000_k3j9x0q2a'')))] \<and>
   files (snd (post_check_pdf (sample_env (Inr [])) (Some plain_upload) crowded_world))
     (tempPath (js ''session_1700000000000_k3j9x0q2a'')) = Some [0x25, 0x50, 0x44, 0x46]"
  by (simp add: crowded_world_def post_check_pdf_def check_pdf_try_def check_pdf_load_def
      saveTemporaryFile_def writeFile_def sample_session_id check_pdf_answer_def lit_def
      plain_upload_def sample_load_def Let_def)

section \<open>Properties of POST /api/unlock-pdf\<close>

text \<open>
  What the handler decides: a request whose \<open>sessionId\<close> or \<open>password\<close> is missing or
  empty is answered 400; an unreadable session file is answered 404; a load that
  succeeds ends in 200 with the session id \<open>sessionId_unlocked\<close>; a load that fails is
  answered 401 when the message of the error contains \<open>password\<close>, and 500 otherwise.
\<close>

lemma unlock_pdf_cases:
  "(sessionId = None \<or> sessionId = Some [] \<or> password = None \<or> password = Some [] \<longrightarrow>
      post_unlock_pdf env sessionId password w =
        (JsonResponse 400 [(js ''error'', lit ''Session ID and password are required'')], w)) \<and>
   (sid \<noteq> [] \<and> pwd \<noteq> [] \<longrightarrow>
      (\<forall>e. readFile env (tempPath sid) w = Inl e \<longrightarrow>
         post_unlock_pdf env (Some sid) (Some pwd) w =
           (JsonResponse 404 [(js ''error'', lit ''Session expired or file not found'')],
            console_error ''File not found:'' w)) \<and>
      (\<forall>pdfBuffer pdfDoc unlocked.
         readFile env (tempPath sid) w = Inr pdfBuffer \<and>
         load_pdf env pdfBuffer (Some pwd) = Inr pdfDoc \<and>
         save_pdf env pdfDoc = Inr unlocked \<and>
         fs_fault env Mkdir (js ''temp'') = None \<and>
         fs_fault env WriteFile (tempPath (sid @ js ''_unlocked'')) = None \<longrightarrow>
         post_unlock_pdf env (Some sid) (Some pwd) w =
           (JsonResponse 200
              [(js ''status'', lit ''success''),
               (js ''message'', lit ''PDF unlocked successfully! Processing...''),
               (js ''sessionId'', Some (JStr (sid @ js ''_unlocked'')))],
            w\<lparr>files := (files w)(tempPath (sid @ js ''_unlocked'') \<mapsto> unlocked)\<rparr>)) \<and>
      (\<forall>pdfBuffer e.
         readFile env (tempPath sid) w = Inr pdfBuffer \<and>
         load_pdf env pdfBuffer (Some pwd) = Inl e \<and> message_includes e ''password'' \<longrightarrow>
         post_unlock_pdf env (Some sid) (Some pwd) w =
           (JsonResponse 401
              [(js ''status'', lit ''invalid_password''),
               (js ''error'', lit ''Incorrect password. Please try again.'')],
            w)) \<and>
      (\<forall>pdfBuffer e.
         readFile env (tempPath sid) w = Inr pdfBuffer \<and>
         load_pdf env pdfBuffer (Some pwd) = Inl e \<and> \<not> message_includes e ''password'' \<longrightarrow>
         post_unlock_pdf env (Some sid) (Some pwd) w =
           (server_error ''Failed to unlock PDF'' e, console_error ''Error unlocking PDF:'' w)))"
  by (auto simp: post_unlock_pdf_def unlock_pdf_try_def unlock_pdf_load_def
      getTemporaryFile_def saveTemporaryFile_def writeFile_def Let_def)

lemma unlock_empty_password_is_400:
  "files sample_world (tempPath (js ''s2'')) = Some [0x45, 0x25, 0x50, 0x44, 0x46] \<and>
   load_pdf (sample_env (Inr [])) [0x45, 0x25, 0x50, 0x44, 0x46] (Some []) =
     Inl (Error (Some (js ''Incorrect password''))) \<and>
   fst (post_unlock_pdf (sample_env (Inr [])) (Some (js ''s2'')) (Some []) sample_world) =
     JsonResponse 400 [(js ''error'', lit ''Session ID and password are required'')]"
  by (simp add: sample_world_def sample_load_def post_unlock_pdf_def unlock_pdf_try_def js_def)

text \<open>
  With the load of pdf-lib, every non-empty password for the stored encrypted PDF \<open>s2\<close>
  is answered 500.
\<close>

lemma unlock_pdflib_any_password_is_500:
  \<open>pwd \<noteq> [] \<Longrightarrow>
   fst (post_unlock_pdf pdflib_env (Some (js ''s2'')) (Some pwd) sample_world) =
     JsonResponse 500
       [(js ''error'', Some (JStr (js ''Failed to unlock PDF''))),
        (js ''details'',
         Some (JStr (js ''Input document to `PDFDocument.load` is encrypted. You can use `PDFDocument.load(..., { ignoreEncryption: true })` if you wish to load the document anyways.'')))]\<close>
  by (simp add: pdflib_env_def sample_env_def pdflib_load_def sample_world_def
      post_unlock_pdf_def unlock_pdf_try_def unlock_pdf_load_def getTemporaryFile_def
      readFile_def message_includes_def server_error_def lit_def tempPath_def js_def)

text \<open>
  C2. The 401 is tied to the word \<open>password\<close> in the message of the library's error.
  The error pdf-lib throws on an encrypted document does not contain it, so for the
  stored encrypted PDF \<open>s2\<close> a wrong password is answered with the generic 500, and so
  is the password the document was encrypted with.
\<close>

theorem unlock_wrong_password_answers_500:
  \<open>files sample_world (tempPath (js ''s2'')) = Some [0x45, 0x25, 0x50, 0x44, 0x46] \<and>
   load_pdf pdflib_env [0x45, 0x25, 0x50, 0x44, 0x46] (Some (js ''guess'')) =
     Inl (Error (Some (js ''Input document to `PDFDocument.load` is encrypted. You can use `PDFDocument.load(..., { ignoreEncryption: true })` if you wish to load the document anyways.''))) \<and>
   \<not> message_includes
       (Error (Some (js ''Input document to `PDFDocument.load` is encrypted. You can use `PDFDocument.load(..., { ignoreEncryption: true })` if you wish to load the document anyways.'')))
       ''password'' \<and>
   fst (post_unlock_pdf pdflib_env (Some (js ''s2'')) (Some (js ''guess'')) sample_world) =
     JsonResponse 500
       [(js ''error'', Some (JStr (js ''Failed to unlock PDF''))),
        (js ''details'',
         Some (JStr (js ''Input document to `PDFDocument.load` is encrypted. You can use `PDFDocument.load(..., { ignoreEncryption: true })` if you wish to load the document anyways.'')))] \<and>
   fst (post_unlock_pdf pdflib_env (Some (js ''s2'')) (Some (js ''secret'')) sample_world) =
     JsonResponse 500
       [(js ''error'', Some (JStr (js ''Failed to unlock PDF''))),
        (js ''details'',
         Some (JStr (js ''Input document to `PDFDocument.load` is encrypted. You can use `PDFDocument.load(..., { ignoreEncryption: true })` if you wish to load the document anyways.'')))]\<close>
  by (simp add: pdflib_env_def sample_env_def pdflib_load_def sample_world_def
      post_unlock_pdf_def unlock_pdf_try_def unlock_pdf_load_def getTemporaryFile_def
      readFile_def message_includes_def server_error_def lit_def tempPath_def js_def)

section \<open>Properties of POST /api/process-pdf\<close>







section \<open>Properties of the document type\<close>

lemma credit_not_bank: "js ''credit'' \<noteq> js ''bank''"
  by (simp add: js_def)

lemma key_neq [simp]:
  "js ''error'' \<noteq> js ''documentType''" "js ''details'' \<noteq> js ''documentType''"
  "js ''status'' \<noteq> js ''documentType''" "js ''analysis'' \<noteq> js ''documentType''"
  "js ''textLength'' \<noteq> js ''documentType''"
  by (simp_all add: js_def)

lemma sample_credit_empty:
  "createCreditCardExcel [] (JObj []) =
     Inr [\<lparr>sheet_name = js ''Transactions'',
            columns = [col ''Date'' ''date'' 15, col ''Merchant'' ''merchant'' 35,
                       col ''Amount'' ''amount'' 15, col ''Category'' ''category'' 20],
            rows = []\<rparr>,
          \<lparr>sheet_name = js ''Subscriptions'',
            columns = [col ''Service'' ''merchant'' 30, col ''Amount'' ''amount'' 15,
                       col ''Frequency'' ''frequency'' 15, col ''Category'' ''category'' 20],
            rows = []\<rparr>,
          \<lparr>sheet_name = js ''Summary'',
            columns = [col ''Metric'' ''metric'' 30, col ''Value'' ''value'' 20],
            rows = []\<rparr>]"
  by (simp add: createCreditCardExcel_def and_then_def)

lemma bank_prompt_not_credit_prompt: "getBankStatementPrompt t \<noteq> getCreditCardPrompt t"
proof
  assume "getBankStatementPrompt t = getCreditCardPrompt t"
  then have "length (getBankStatementPrompt t) = length (getCreditCardPrompt t)"
    by simp
  then show False
    by (simp add: getBankStatementPrompt_def getCreditCardPrompt_def len_bank_intro
        len_bank_rules len_bank_schema len_credit_schema split: if_splits)
qed

text \<open>
  C10. The document type is compared with the string \<open>bank\<close> and nothing else. For
  every other value, undefined included: \<open>/api/analyze-text\<close> sends the credit card
  prompt of the request's text to the model; \<open>/api/process-pdf\<close>, on a stored file whose
  text is extracted, sends the credit card prompt of the extracted text to the model;
  \<open>/api/analyze-text\<close> and \<open>/api/process-pdf\<close> answer as they do for \<open>credit\<close>, up to
  the document type they echo; and \<open>/api/generate-report\<close> answers as it does for
  \<open>credit\<close>, with the credit card workbook.
\<close>

theorem non_bank_type_is_credit:
  assumes "documentType \<noteq> Some (JStr (js ''bank''))"
  shows
    "(t \<noteq> [] \<longrightarrow>
        post_analyze_text env (Some t) documentType w =
          (case generateContent env (modelName t) (getCreditCardPrompt t) of
             Inl e \<Rightarrow>
               (server_error ''Failed to analyze document'' e,
                console_error ''Error analyzing text:'' w)
           | Inr analysisText \<Rightarrow>
               (case parse_or env analyze_text_fallback analysisText w of
                  (analysis, w') \<Rightarrow> (analysis_answer analysis documentType t, w')))) \<and>
     (files w (tempPath (interpolate sessionId)) = Some pdfBuffer \<and>
      fs_fault env ReadFile (tempPath (interpolate sessionId)) = None \<and>
      pdf_text env pdfBuffer = Inr extractedText \<longrightarrow>
        post_process_pdf env sessionId documentType w =
          (case generateContent env (modelName extractedText)
                  (getCreditCardPrompt extractedText) of
             Inl e \<Rightarrow>
               (JsonResponse 500
                  [(js ''error'', Some (JStr (js ''Failed to process PDF''))),
                   (js ''details'', map_option JStr (message e))],
                console_error ''Error processing PDF:''
                  (snd (deleteTemporaryFile env (interpolate sessionId) w)))
           | Inr analysisText \<Rightarrow>
               (case parse_or env process_pdf_fallback analysisText
                       (snd (deleteTemporaryFile env (interpolate sessionId) w)) of
                  (analysis, w') \<Rightarrow>
                    (JsonResponse 200
                       [(js ''status'', Some (JStr (js ''success''))),
                        (js ''analysis'', Some analysis),
                        (js ''documentType'', documentType),
                        (js ''textLength'', Some (JNum (of_nat (length extractedText))))],
                     w')))) \<and>
     post_analyze_text env req_text documentType w =
       apfst (with_documentType documentType)
         (post_analyze_text env req_text (Some (JStr (js ''credit''))) w) \<and>
     post_process_pdf env sessionId documentType w =
       apfst (with_documentType documentType)
         (post_process_pdf env sessionId (Some (JStr (js ''credit''))) w) \<and>
     post_generate_report env analysis documentType w =
       post_generate_report env analysis (Some (JStr (js ''credit''))) w \<and>
     (truthy (Some a) \<longrightarrow>
        post_generate_report env (Some a) documentType w =
          (case and_then (createCreditCardExcel [] a) (writeBuffer env) of
             Inl e \<Rightarrow>
               (server_error ''Failed to generate report'' e,
                console_error ''Error generating report:'' w)
           | Inr content \<Rightarrow>
               (Download
                  [(js ''Content-Type'',
                    js ''application/vnd.openxmlformats-officedocument.spreadsheetml.sheet''),
                   (js ''Content-Disposition'',
                    js ''attachment; filename=statement_analysis_'' @
                    show_nat (date_now env) @ js ''.xlsx'')]
                  content, w)))"
proof (intro conjI impI)
  assume "t \<noteq> []"
  then show "post_analyze_text env (Some t) documentType w =
      (case generateContent env (modelName t) (getCreditCardPrompt t) of
         Inl e \<Rightarrow>
           (server_error ''Failed to analyze document'' e,
            console_error ''Error analyzing text:'' w)
       | Inr analysisText \<Rightarrow>
           (case parse_or env analyze_text_fallback analysisText w of
              (analysis, w') \<Rightarrow> (analysis_answer analysis documentType t, w')))"
    using assms
    by (simp add: post_analyze_text_def analyze_text_try_def split: sum.splits prod.splits)
next
  assume "files w (tempPath (interpolate sessionId)) = Some pdfBuffer \<and>
      fs_fault env ReadFile (tempPath (interpolate sessionId)) = None \<and>
      pdf_text env pdfBuffer = Inr extractedText"
  then show "post_process_pdf env sessionId documentType w =
      (case generateContent env (modelName extractedText)
              (getCreditCardPrompt extractedText) of
         Inl e \<Rightarrow>
           (JsonResponse 500
              [(js ''error'', Some (JStr (js ''Failed to process PDF''))),
               (js ''details'', map_option JStr (message e))],
            console_error ''Error processing PDF:''
              (snd (deleteTemporaryFile env (interpolate sessionId) w)))
       | Inr analysisText \<Rightarrow>
           (case parse_or env process_pdf_fallback analysisText
                   (snd (deleteTemporaryFile env (interpolate sessionId) w)) of
              (analysis, w') \<Rightarrow>
                (JsonResponse 200
                   [(js ''status'', Some (JStr (js ''success''))),
                    (js ''analysis'', Some analysis),
                    (js ''documentType'', documentType),
                    (js ''textLength'', Some (JNum (of_nat (length extractedText))))],
                 w')))"
    using assms
    by (auto simp: post_process_pdf_def process_pdf_try_def getTemporaryFile_def
        readFile_def deleteTemporaryFile_def unlink_def analysis_answer_def lit_def
        server_error_def
        split: sum.splits prod.splits option.splits)
next
  show "post_analyze_text env req_text documentType w =
      apfst (with_documentType documentType)
        (post_analyze_text env req_text (Some (JStr (js ''credit''))) w)"
    using assms credit_not_bank
    by (simp add: post_analyze_text_def analyze_text_try_def with_documentType_def
        analysis_answer_def server_error_def
        split: sum.splits prod.splits option.splits)
next
  show "post_process_pdf env sessionId documentType w =
      apfst (with_documentType documentType)
        (post_process_pdf env sessionId (Some (JStr (js ''credit''))) w)"
    using assms credit_not_bank
    by (simp add: post_process_pdf_def process_pdf_try_def with_documentType_def
        analysis_answer_def server_error_def
        split: sum.splits prod.splits option.splits)
next
  show "post_generate_report env analysis documentType w =
      post_generate_report env analysis (Some (JStr (js ''credit''))) w"
    using assms credit_not_bank
    by (simp add: post_generate_report_def generate_report_try_def)
next
  assume "truthy (Some a)"
  then show "post_generate_report env (Some a) documentType w =
      (case and_then (createCreditCardExcel [] a) (writeBuffer env) of
         Inl e \<Rightarrow>
           (server_error ''Failed to generate report'' e,
            console_error ''Error generating report:'' w)
       | Inr content \<Rightarrow>
           (Download
              [(js ''Content-Type'',
                js ''application/vnd.openxmlformats-officedocument.spreadsheetml.sheet''),
               (js ''Content-Disposition'',
                js ''attachment; filename=statement_analysis_'' @
                show_nat (date_now env) @ js ''.xlsx'')]
              content, w))"
    using assms
    by (simp add: post_generate_report_def generate_report_try_def and_then_def
        split: sum.splits)
qed

theorem non_bank_type_witness:
  "None \<noteq> Some (JStr (js ''bank'')) \<and> js ''hello'' \<noteq> [] \<and>
   post_analyze_text (sample_env (Inr (js ''{}''))) (Some (js ''hello'')) None sample_world =
     (analysis_answer (JObj []) None (js ''hello''), sample_world) \<and>
   truthy (Some (JObj [])) \<and>
   post_generate_report (sample_env (Inr (js ''{}''))) (Some (JObj [])) None sample_world =
     (Download
        [(js ''Content-Type'',
          js ''application/vnd.openxmlformats-officedocument.spreadsheetml.sheet''),
         (js ''Content-Disposition'',
          js ''attachment; filename=statement_analysis_'' @
          show_nat 1700000000000 @ js ''.xlsx'')]
        [], sample_world) \<and>
   Some (JStr (js ''savings'')) \<noteq> Some (JStr (js ''bank'')) \<and>
   files sample_world (tempPath (interpolate (Some (js ''s1'')))) = Some [0x25, 0x50, 0x44, 0x46] \<and>
   fs_fault (credit_prompt_env (js ''%PDF'')) ReadFile (tempPath (interpolate (Some (js ''s1'')))) =
     None \<and>
   pdf_text (credit_prompt_env (js ''%PDF'')) [0x25, 0x50, 0x44, 0x46] = Inr (js ''%PDF'') \<and>
   post_process_pdf (credit_prompt_env (js ''%PDF'')) (Some (js ''s1''))
       (Some (JStr (js ''savings''))) sample_world =
     (JsonResponse 200
        [(js ''status'', Some (JStr (js ''success''))),
         (js ''analysis'', Some (JObj [])),
         (js ''documentType'', Some (JStr (js ''savings''))),
         (js ''textLength'', Some (JNum 4))],
      sample_world\<lparr>files := (files sample_world)(tempPath (js ''s1'') := None)\<rparr>) \<and>
   post_process_pdf (credit_prompt_env (js ''%PDF'')) (Some (js ''s1''))
       (Some (JStr (js ''bank''))) sample_world =
     (JsonResponse 500
        [(js ''error'', Some (JStr (js ''Failed to process PDF''))),
         (js ''details'', Some (JStr (js ''not the credit card prompt'')))],
      sample_world\<lparr>files := (files sample_world)(tempPath (js ''s1'') := None),
                    errlog := [js ''Error processing PDF:'']\<rparr>)"
proof -
  let ?env = "credit_prompt_env (js ''%PDF'')"
  have n: "None \<noteq> Some (JStr (js ''bank''))" by simp
  have n': "Some (JStr (js ''savings'')) \<noteq> Some (JStr (js ''bank''))"
    by (simp add: js_def)
  have h: "js ''hello'' \<noteq> []" by (simp add: js_def)
  have i: "interpolate (Some (js ''s1'')) = js ''s1''"
    by (simp add: interpolate_def)
  have f: "files sample_world (tempPath (interpolate (Some (js ''s1'')))) =
      Some [0x25, 0x50, 0x44, 0x46]"
    by (simp add: i files_s1)
  have u: "fs_fault ?env operation path = None" for operation path
    by (simp add: credit_prompt_env_def)
  have r: "fs_fault ?env ReadFile (tempPath (interpolate (Some (js ''s1'')))) = None"
    by (rule u)
  have e: "errlog sample_world = []"
    by (simp add: sample_world_def)
  have t: "pdf_text ?env [0x25, 0x50, 0x44, 0x46] = Inr (js ''%PDF'')"
    using sample_text_s1 [of "Inr []"] by (simp add: credit_prompt_env_def)
  have g: "generateContent ?env m (getCreditCardPrompt (js ''%PDF'')) = Inr (js ''{}'')" for m
    by (simp add: credit_prompt_env_def)
  have jp: "JSON_parse ?env = JSON_parse (sample_env (Inr []))"
    by (simp add: fun_eq_iff JSON_parse_def credit_prompt_env_def)
  have x: "extract_json ?env (js ''{}'') = Inr (JObj [])"
    unfolding extract_json_def jp
    by (rule sample_extract_object [of "Inr []", unfolded extract_json_def])
  have d: "snd (deleteTemporaryFile ?env (js ''s1'') sample_world) =
      sample_world\<lparr>files := (files sample_world)(tempPath (js ''s1'') := None)\<rparr>"
    using files_s1 by (simp add: deleteTemporaryFile_def unlink_def credit_prompt_env_def)
  have savings: "post_process_pdf ?env (Some (js ''s1'')) (Some (JStr (js ''savings'')))
      sample_world =
     (JsonResponse 200
        [(js ''status'', Some (JStr (js ''success''))),
         (js ''analysis'', Some (JObj [])),
         (js ''documentType'', Some (JStr (js ''savings''))),
         (js ''textLength'', Some (JNum 4))],
      sample_world\<lparr>files := (files sample_world)(tempPath (js ''s1'') := None)\<rparr>)"
    using non_bank_type_is_credit [OF n', where env = ?env and w = sample_world
        and sessionId = "Some (js ''s1'')" and pdfBuffer = "[0x25, 0x50, 0x44, 0x46]"
        and extractedText = "js ''%PDF''"] f r t
    by (simp add: i g d parse_or_def x)
  have b: "generateContent ?env m (getBankStatementPrompt (js ''%PDF'')) =
      Inl (Error (Some (js ''not the credit card prompt'')))" for m
    using bank_prompt_not_credit_prompt [of "js ''%PDF''"]
    by (simp add: credit_prompt_env_def)
  have bank: "post_process_pdf ?env (Some (js ''s1'')) (Some (JStr (js ''bank'')))
      sample_world =
     (JsonResponse 500
        [(js ''error'', Some (JStr (js ''Failed to process PDF''))),
         (js ''details'', Some (JStr (js ''not the credit card prompt'')))],
      sample_world\<lparr>files := (files sample_world)(tempPath (js ''s1'') := None),
                    errlog := [js ''Error processing PDF:'']\<rparr>)"
    using t
    by (simp add: post_process_pdf_def process_pdf_try_def getTemporaryFile_def readFile_def
        i u files_s1 deleteTemporaryFile_def unlink_def b server_error_def lit_def
        console_error_def e)
  have rest: "post_analyze_text (sample_env (Inr (js ''{}''))) (Some (js ''hello'')) None
      sample_world = (analysis_answer (JObj []) None (js ''hello''), sample_world) \<and>
    truthy (Some (JObj [])) \<and>
    post_generate_report (sample_env (Inr (js ''{}''))) (Some (JObj [])) None sample_world =
     (Download
        [(js ''Content-Type'',
          js ''application/vnd.openxmlformats-officedocument.spreadsheetml.sheet''),
         (js ''Content-Disposition'',
          js ''attachment; filename=statement_analysis_'' @
          show_nat 1700000000000 @ js ''.xlsx'')]
        [], sample_world)"
    using n h
      non_bank_type_is_credit [OF n, where env = "sample_env (Inr (js ''{}''))"
        and w = sample_world and t = "js ''hello''" and a = "JObj []"
        and req_text = None and sessionId = None and analysis = None]
    by (simp add: parse_or_def sample_extract_object sample_credit_empty and_then_def)
  show ?thesis
    using n n' h f r t savings bank rest by (simp only: simp_thms)
qed

section \<open>Properties of the JSON extraction\<close>

lemma indexOf_split:
  "indexOf s p = Some i \<Longrightarrow> s = take i s @ p @ drop (i + length p) s"
proof (induction s arbitrary: i)
  case Nil
  then show ?case by (simp split: if_splits)
next
  case (Cons x xs)
  show ?case
  proof (cases "prefix p (x # xs)")
    case True
    then obtain r where r: "x # xs = p @ r" by (auto simp: prefix_def)
    from True Cons.prems have "i = 0" by simp
    then show ?thesis using r by (metis add_0 append_eq_conv_conj append_self_conv2 take_0)
  next
    case False
    with Cons.prems obtain j where j: "indexOf xs p = Some j" "i = Suc j" by auto
    from Cons.IH [OF j(1)] j(2) show ?thesis by simp
  qed
qed

lemma fenced_capture_between:
  assumes "fenced_capture t = Some g"
  shows "\<exists>pre post. t = pre @ fence_open @ g @ fence_close @ post"
proof -
  from assms obtain i j where
    i: "indexOf t fence_open = Some i" and
    j: "indexOf (drop (i + length fence_open) t) fence_close = Some j" and
    g: "g = take j (drop (i + length fence_open) t)"
    by (auto simp: fenced_capture_def Let_def split: option.splits)
  let ?rest = "drop (i + length fence_open) t"
  have "t = take i t @ fence_open @ ?rest" using indexOf_split [OF i] .
  moreover have "?rest = g @ fence_close @ drop (j + length fence_close) ?rest"
    using indexOf_split [OF j] g by simp
  ultimately have "t = take i t @ fence_open @ g @ fence_close @ drop (j + length fence_close) ?rest"
    by metis
  then show ?thesis by blast
qed

lemma brace_span_first_to_last:
  assumes "brace_span t = Some b"
  shows "\<exists>pre mid post. t = pre @ b @ post \<and> b = 0x7B # mid @ [0x7D] \<and>
           0x7B \<notin> set pre \<and> 0x7D \<notin> set post"
proof -
  let ?P = "\<lambda>c::16 word. c \<noteq> 0x7B"
  let ?Q = "\<lambda>c::16 word. c \<noteq> 0x7D"
  from assms obtain b0 rest where
    d: "dropWhile ?P t = b0 # rest" and r: "0x7D \<in> set rest" and
    b: "b = b0 # rev (dropWhile ?Q (rev rest))"
    by (auto simp: brace_span_def split: list.splits if_splits)
  have b0: "b0 = 0x7B" using d by (metis (mono_tags, lifting) hd_dropWhile list.distinct(1) list.sel(1))
  have t: "t = takeWhile ?P t @ b0 # rest" using d by (metis takeWhile_dropWhile_id)
  have pre: "0x7B \<notin> set (takeWhile ?P t)" by (auto dest: set_takeWhileD)
  from r have "dropWhile ?Q (rev rest) \<noteq> []" by (simp add: dropWhile_eq_Nil_conv)
  then obtain c r' where dq: "dropWhile ?Q (rev rest) = c # r'" by (cases "dropWhile ?Q (rev rest)") auto
  have c: "c = 0x7D" using dq by (metis (mono_tags, lifting) hd_dropWhile list.distinct(1) list.sel(1))
  have "rev rest = takeWhile ?Q (rev rest) @ c # r'" using dq by (metis takeWhile_dropWhile_id)
  then have "rest = rev (c # r') @ rev (takeWhile ?Q (rev rest))"
    by (metis rev_append rev_rev_ident)
  then have rest: "rest = rev r' @ [0x7D] @ rev (takeWhile ?Q (rev rest))" using c by simp
  have post: "0x7D \<notin> set (rev (takeWhile ?Q (rev rest)))" by (auto dest: set_takeWhileD)
  have bb: "b = 0x7B # rev r' @ [0x7D]" using b dq b0 c by simp
  have "t = takeWhile ?P t @ b @ rev (takeWhile ?Q (rev rest))"
    using t rest bb b0 by (metis append_Cons append_assoc)
  with bb pre post show ?thesis by blast
qed

lemma indexOf_None: "indexOf s p = None \<Longrightarrow> \<not> js_includes s p"
  by (induction s) (auto split: if_splits)

lemma indexOf_first: "indexOf s p = Some i \<Longrightarrow> s = a @ p @ b \<Longrightarrow> i \<le> length a"
proof (induction s arbitrary: i a)
  case Nil
  then show ?case by (simp split: if_splits)
next
  case (Cons x xs)
  show ?case
  proof (cases "prefix p (x # xs)")
    case True
    with Cons.prems(1) have "i = 0" by simp
    then show ?thesis by simp
  next
    case False
    with Cons.prems(1) obtain j where j: "indexOf xs p = Some j" "i = Suc j" by auto
    from False Cons.prems(2) have "a \<noteq> []" by (auto simp: prefix_def)
    then obtain a' where a: "a = x # a'" using Cons.prems(2) by (cases a) auto
    with Cons.prems(2) have "xs = a' @ p @ b" by simp
    from Cons.IH [OF j(1) this] j(2) a show ?thesis by simp
  qed
qed

lemma fenced_capture_Some_iff:
  "fenced_capture t \<noteq> None \<longleftrightarrow>
     (\<exists>pre g post. t = pre @ fence_open @ g @ fence_close @ post)"
proof
  assume "fenced_capture t \<noteq> None"
  then obtain g where "fenced_capture t = Some g" by auto
  from fenced_capture_between [OF this] show "\<exists>pre g post. t = pre @ fence_open @ g @ fence_close @ post"
    by blast
next
  assume "\<exists>pre g post. t = pre @ fence_open @ g @ fence_close @ post"
  then obtain pre g post where t: "t = pre @ fence_open @ g @ fence_close @ post" by blast
  then have "js_includes t fence_open" by (rule js_includesI)
  then obtain i where i: "indexOf t fence_open = Some i"
    using indexOf_None [of t fence_open] by (cases "indexOf t fence_open") auto
  have le: "i \<le> length pre" using indexOf_first [OF i t] .
  have "drop (i + length fence_open) t =
      (drop (i + length fence_open) (pre @ fence_open) @ g) @ fence_close @ post"
    using le by (simp add: t)
  then have "js_includes (drop (i + length fence_open) t) fence_close"
    by (rule js_includesI)
  then obtain j where "indexOf (drop (i + length fence_open) t) fence_close = Some j"
    using indexOf_None [of "drop (i + length fence_open) t" fence_close]
    by (cases "indexOf (drop (i + length fence_open) t) fence_close") auto
  with i show "fenced_capture t \<noteq> None"
    by (simp add: fenced_capture_def Let_def)
qed

text \<open>
  What the extraction decides: a fenced block whose content is not empty is parsed, with
  its content trimmed; without a fenced block, or when the first one is empty, the span
  from the first \<open>{\<close> to the last \<open>}\<close> of the text is parsed; without such a span the
  extraction throws.
\<close>

lemma extract_json_cases:
  "(\<forall>g. fenced_capture t = Some g \<and> g \<noteq> [] \<longrightarrow>
      extract_json env t = JSON_parse env (trim g)) \<and>
   (fenced_capture t = None \<or> fenced_capture t = Some [] \<longrightarrow>
      extract_json env t =
        (case brace_span t of
           Some b \<Rightarrow> JSON_parse env b
         | None \<Rightarrow> Inl (Error (Some (js ''No JSON found in response''))))) \<and>
   (fenced_capture t \<noteq> None \<longleftrightarrow>
      (\<exists>pre g post. t = pre @ fence_open @ g @ fence_close @ post)) \<and>
   (\<forall>g. fenced_capture t = Some g \<longrightarrow>
      (\<exists>pre post. t = pre @ fence_open @ g @ fence_close @ post)) \<and>
   (\<forall>b. brace_span t = Some b \<longrightarrow>
      (\<exists>pre mid post. t = pre @ b @ post \<and> b = 0x7B # mid @ [0x7D] \<and>
         0x7B \<notin> set pre \<and> 0x7D \<notin> set post))"
proof (intro conjI allI impI)
  fix g assume "fenced_capture t = Some g \<and> g \<noteq> []"
  then show "extract_json env t = JSON_parse env (trim g)"
    by (simp add: extract_json_def)
next
  assume "fenced_capture t = None \<or> fenced_capture t = Some []"
  then show "extract_json env t =
      (case brace_span t of
         Some b \<Rightarrow> JSON_parse env b
       | None \<Rightarrow> Inl (Error (Some (js ''No JSON found in response''))))"
    by (auto simp: extract_json_def)
next
  show "fenced_capture t \<noteq> None \<longleftrightarrow>
      (\<exists>pre g post. t = pre @ fence_open @ g @ fence_close @ post)"
    by (rule fenced_capture_Some_iff)
next
  fix g assume "fenced_capture t = Some g"
  then show "\<exists>pre post. t = pre @ fence_open @ g @ fence_close @ post"
    by (rule fenced_capture_between)
next
  fix b assume "brace_span t = Some b"
  then show "\<exists>pre mid post. t = pre @ b @ post \<and> b = 0x7B # mid @ [0x7D] \<and>
      0x7B \<notin> set pre \<and> 0x7D \<notin> set post"
    by (rule brace_span_first_to_last)
qed

lemma sample_two_objects:
  "fenced_capture (js ''{} {}'') = None"
  "brace_span (js ''{} {}'') = Some (js ''{} {}'')"
  "first_top_level_span (js ''{} {}'') = Some (js ''{}'')"
  by (simp_all add: fenced_capture_def fence_open_def brace_span_def first_top_level_span_def
      js_def)

lemma sample_parse_simps:
  \<open>sample_parse (js ''{}'') = Some (JObj [])\<close>
  \<open>sample_parse (js ''{"a":1}'') = Some (JObj [(js ''a'', JNum 1)])\<close>
  \<open>sample_parse (js ''{} {}'') = None\<close>
  by (simp_all add: sample_parse_def js_def)

lemma sample_empty_fence:
  "fenced_capture (js ''```json``` {}'') = Some []"
  "brace_span (js ''```json``` {}'') = Some (js ''{}'')"
  by (simp_all add: fenced_capture_def fence_open_def fence_close_def brace_span_def js_def)

lemma empty_fence_falls_back:
  "fenced_capture (js ''```json``` {}'') = Some [] \<and>
   extract_json (sample_env (Inr [])) (js ''```json``` {}'') = Inr (JObj [])"
  by (simp add: sample_empty_fence extract_json_def JSON_parse_def sample_parse_simps)

text \<open>
  C3. The second choice of the extraction is announced in the handler as the first JSON
  object of the text, and the specification calls it the first top-level span. On a
  model answer with two objects and no fence, that span is \<open>{}\<close> and parses; the
  handler's greedy pattern takes the text from the first \<open>{\<close> to the last \<open>}\<close>,
  which does not parse, and the request is answered with the fallback analysis.
\<close>

theorem greedy_brace_span_is_not_first_object:
  "fenced_capture (js ''{} {}'') = None \<and>
   first_top_level_span (js ''{} {}'') = Some (js ''{}'') \<and>
   JSON_parse (sample_env (Inr (js ''{} {}''))) (js ''{}'') = Inr (JObj []) \<and>
   brace_span (js ''{} {}'') = Some (js ''{} {}'') \<and>
   extract_json (sample_env (Inr (js ''{} {}''))) (js ''{} {}'') =
     Inl (Error (Some (js ''Unexpected token in JSON''))) \<and>
   fst (post_analyze_text (sample_env (Inr (js ''{} {}''))) (Some (js ''hello''))
          (Some (JStr (js ''bank''))) sample_world) =
     JsonResponse 200
       [(js ''status'', Some (JStr (js ''success''))),
        (js ''analysis'',
         Some (JObj [(js ''summary'',
                      JObj [(js ''totalDeposits'', JNum 0),
                            (js ''totalWithdrawals'', JNum 0),
                            (js ''netFlow'', JNum 0),
                            (js ''error'', JStr (js ''Analysis completed but formatting failed''))]),
                     (js ''categories'', JObj []),
                     (js ''alerts'', JArr [JStr (js ''Analysis completed but data formatting failed'')]),
                     (js ''rawResponse'', JStr (js ''{} {}''))])),
        (js ''documentType'', Some (JStr (js ''bank''))),
        (js ''textLength'', Some (JNum 5))]"
proof -
  have x: "extract_json (sample_env (Inr (js ''{} {}''))) (js ''{} {}'') =
      Inl (Error (Some (js ''Unexpected token in JSON'')))"
    by (simp add: sample_two_objects extract_json_def JSON_parse_def sample_parse_simps
        SyntaxError_def)
  have r: "substring (js ''{} {}'') 0 1000 = js ''{} {}''"
    by (simp add: substring_head js_def)
  have h: "js ''hello'' \<noteq> []" "length (js ''hello'') = 5" by (simp_all add: js_def)
  have a: "fst (post_analyze_text (sample_env (Inr (js ''{} {}''))) (Some (js ''hello''))
        (Some (JStr (js ''bank''))) sample_world) =
      JsonResponse 200
        [(js ''status'', Some (JStr (js ''success''))),
         (js ''analysis'', Some (analyze_text_fallback (js ''{} {}''))),
         (js ''documentType'', Some (JStr (js ''bank''))),
         (js ''textLength'', Some (JNum 5))]"
    using h by (simp add: post_analyze_text_def analyze_text_try_def parse_or_def x
        analysis_answer_def lit_def)
  show ?thesis
    using x a
    by (simp add: sample_two_objects JSON_parse_def sample_parse_simps
        analyze_text_fallback_def r)
qed

section \<open>Properties of the fallback analysis\<close>

lemma analyze_text_fallback_answer:
  assumes "t \<noteq> []"
    and "generateContent env (modelName t)
           (if documentType = Some (JStr (js ''bank''))
            then getBankStatementPrompt t else getCreditCardPrompt t) = Inr analysisText"
    and "extract_json env analysisText = Inl parseError"
  shows "post_analyze_text env (Some t) documentType w =
           (JsonResponse 200
              [(js ''status'', lit ''success''),
               (js ''analysis'', Some (analyze_text_fallback analysisText)),
               (js ''documentType'', documentType),
               (js ''textLength'', Some (JNum (of_nat (length t))))],
            console_error ''Failed to parse Gemini response:'' w)"
  using assms
  by (simp add: post_analyze_text_def analyze_text_try_def parse_or_def analysis_answer_def)

lemma analyze_text_fallback_parts:
  "get_prop (analyze_text_fallback analysisText) (js ''categories'') = Inr (Some (JObj []))"
  "get_prop (analyze_text_fallback analysisText) (js ''alerts'') =
     Inr (Some (JArr [JStr (js ''Analysis completed but data formatting failed'')]))"
  "get_prop (analyze_text_fallback analysisText) (js ''rawResponse'') =
     Inr (Some (JStr (take 1000 analysisText)))"
  "and_then (get_prop (analyze_text_fallback analysisText) (js ''summary''))
     (\<lambda>s. case s of None \<Rightarrow> Inr None | Some v \<Rightarrow> get_prop v (js ''error'')) =
     Inr (Some (JStr (js ''Analysis completed but formatting failed'')))"
  by (simp_all add: analyze_text_fallback_def js_def and_then_def substring_head)

lemma process_pdf_fallback_parts:
  "get_prop (process_pdf_fallback analysisText) (js ''categories'') = Inr None"
  "get_prop (process_pdf_fallback analysisText) (js ''alerts'') = Inr None"
  "get_prop (process_pdf_fallback analysisText) (js ''rawResponse'') =
     Inr (Some (JStr (take 1000 analysisText)))"
  "and_then (get_prop (process_pdf_fallback analysisText) (js ''summary''))
     (\<lambda>s. case s of None \<Rightarrow> Inr None | Some v \<Rightarrow> get_prop v (js ''error'')) =
     Inr (Some (JStr (js ''Analysis completed but formatting failed'')))"
  by (simp_all add: process_pdf_fallback_def js_def and_then_def substring_head)

lemma process_pdf_fallback_answer:
  assumes "files w (tempPath (interpolate sessionId)) = Some pdfBuffer"
    and "fs_fault env ReadFile (tempPath (interpolate sessionId)) = None"
    and "pdf_text env pdfBuffer = Inr extractedText"
    and "generateContent env (modelName extractedText)
           (if type = Some (JStr (js ''bank''))
            then getBankStatementPrompt extractedText
            else getCreditCardPrompt extractedText) = Inr analysisText"
    and "extract_json env analysisText = Inl parseError"
  shows "fst (post_process_pdf env sessionId type w) =
           JsonResponse 200
              [(js ''status'', lit ''success''),
               (js ''analysis'', Some (process_pdf_fallback analysisText)),
               (js ''documentType'', type),
               (js ''textLength'', Some (JNum (of_nat (length extractedText))))]"
  using assms
  by (auto simp: post_process_pdf_def process_pdf_try_def getTemporaryFile_def readFile_def
      deleteTemporaryFile_def parse_or_def analysis_answer_def
      split: sum.splits prod.splits)

text \<open>
  C1. When no JSON can be extracted from the model's answer, neither handler throws:
  both answer 200 with status \<open>success\<close> and an analysis that holds the error text in
  \<open>summary.error\<close> and the first 1000 code units of the answer in \<open>rawResponse\<close>.
  The object of \<open>/api/analyze-text\<close> also has an empty \<open>categories\<close> and one alert;
  the object of \<open>/api/process-pdf\<close> has neither property. Evaluated on the stored PDF
  \<open>s1\<close> and the model answer \<open>no json here\<close>:
\<close>

theorem process_pdf_sentinel_lacks_categories_and_alerts:
  "extract_json (sample_env (Inr (js ''no json here''))) (js ''no json here'') =
     Inl (Error (Some (js ''No JSON found in response''))) \<and>
   fst (post_process_pdf (sample_env (Inr (js ''no json here''))) (Some (js ''s1''))
          (Some (JStr (js ''bank''))) sample_world) =
     JsonResponse 200
       [(js ''status'', lit ''success''),
        (js ''analysis'',
         Some (JObj [(js ''summary'',
                      JObj [(js ''error'', JStr (js ''Analysis completed but formatting failed''))]),
                     (js ''rawResponse'', JStr (js ''no json here''))])),
        (js ''documentType'', Some (JStr (js ''bank''))),
        (js ''textLength'', Some (JNum 4))] \<and>
   get_prop (process_pdf_fallback (js ''no json here'')) (js ''categories'') = Inr None \<and>
   get_prop (process_pdf_fallback (js ''no json here'')) (js ''alerts'') = Inr None \<and>
   fst (post_analyze_text (sample_env (Inr (js ''no json here''))) (Some (js ''%PDF''))
          (Some (JStr (js ''bank''))) sample_world) =
     JsonResponse 200
       [(js ''status'', lit ''success''),
        (js ''analysis'',
         Some (JObj [(js ''summary'',
                      JObj [(js ''totalDeposits'', JNum 0),
                            (js ''totalWithdrawals'', JNum 0),
                            (js ''netFlow'', JNum 0),
                            (js ''error'', JStr (js ''Analysis completed but formatting failed''))]),
                     (js ''categories'', JObj []),
                     (js ''alerts'', JArr [JStr (js ''Analysis completed but data formatting failed'')]),
                     (js ''rawResponse'', JStr (js ''no json here''))])),
        (js ''documentType'', Some (JStr (js ''bank''))),
        (js ''textLength'', Some (JNum 4))]"
proof -
  let ?env = "sample_env (Inr (js ''no json here''))"
  have i: "interpolate (Some (js ''s1'')) = js ''s1''"
    by (simp add: interpolate_def)
  have f: "files sample_world (tempPath (interpolate (Some (js ''s1'')))) =
      Some [0x25, 0x50, 0x44, 0x46]"
    by (simp add: i files_s1)
  have r: "fs_fault ?env ReadFile (tempPath (interpolate (Some (js ''s1'')))) = None"
    by simp
  have g: "generateContent ?env (modelName (js ''%PDF''))
      (if Some (JStr (js ''bank'')) = Some (JStr (js ''bank''))
       then getBankStatementPrompt (js ''%PDF'')
       else getCreditCardPrompt (js ''%PDF'')) = Inr (js ''no json here'')"
    by simp
  have ne: "js ''%PDF'' \<noteq> []" by (simp add: js_def)
  have raw: "take 1000 (js ''no json here'') = js ''no json here''" by (simp add: js_def)
  have len: "length (js ''%PDF'') = 4" by simp
  show ?thesis
    using process_pdf_fallback_answer [OF f r sample_text_s1 g sample_extract_none]
      analyze_text_fallback_answer [OF ne g sample_extract_none, of sample_world]
      process_pdf_fallback_parts [of "js ''no json here''"]
    by (simp add: sample_extract_none process_pdf_fallback_def analyze_text_fallback_def
        substring_head raw)
qed

section \<open>Properties of the report renderer\<close>

text \<open>
  C7. On the sample analysis both renderers return a workbook, but only
  \<open>createBankStatementExcel\<close> puts a default in place of a missing property: its
  transaction row has the empty string and zero for each property the transaction lacks,
  while \<open>createCreditCardExcel\<close> hands the subscription to \<open>addRow\<close> as it is, and the
  row has no cell for \<open>amount\<close>, \<open>frequency\<close> and \<open>category\<close>.
  \<open>createBankStatementExcel\<close> throws on a transactions array that holds \<open>null\<close>
  and on a category whose total yields no primitive, and the handler answers 500.
\<close>

theorem credit_rows_are_not_defaulted:
  "map_sum id (map rows) (createCreditCardExcel [] sample_analysis) =
     Inr [[JObj [(js ''date'', JStr (js ''01/02/2024'')), (js ''debit'', JNum 250)]],
          [JObj [(js ''merchant'', JStr (js ''Netflix''))]],
          []] \<and>
   cell (JObj [(js ''merchant'', JStr (js ''Netflix''))]) (js ''amount'') = None \<and>
   cell (JObj [(js ''merchant'', JStr (js ''Netflix''))]) (js ''frequency'') = None \<and>
   cell (JObj [(js ''merchant'', JStr (js ''Netflix''))]) (js ''category'') = None \<and>
   map_sum id (map rows) (createBankStatementExcel (sample_env (Inr [])) [] sample_analysis) =
     Inr [[JObj [(js ''date'', JStr (js ''01/02/2024'')),
                 (js ''description'', JStr []),
                 (js ''debit'', JNum 250),
                 (js ''credit'', JNum 0),
                 (js ''balance'', JNum 0),
                 (js ''category'', JStr [])]],
          [JObj [(js ''metric'', JStr []), (js ''value'', JStr [])],
           JObj [(js ''metric'', JStr (js ''Category Breakdown'')), (js ''value'', JStr [])]]] \<and>
   createBankStatementExcel (sample_env (Inr [])) []
     (JObj [(js ''transactions'', JArr [JNull])]) =
     Inl (Error (Some (js ''Cannot read properties of null (reading '' @ [0x27] @ js ''date'' @
                       [0x27] @ js '')''))) \<and>
   createBankStatementExcel (sample_env (Inr [])) []
     (JObj [(js ''categories'',
             JObj [(js ''upi'', JObj [(js ''total'', JObj [(js ''toString'', JNum 1)])])])]) =
     Inl (Error (Some (js ''Cannot convert object to primitive value''))) \<and>
   fst (post_generate_report (sample_env (Inr []))
          (Some (JObj [(js ''transactions'', JArr [JNull])]))
          (Some (JStr (js ''bank''))) sample_world) =
     JsonResponse 500
       [(js ''error'', Some (JStr (js ''Failed to generate report''))),
        (js ''details'',
         Some (JStr (js ''Cannot read properties of null (reading '' @ [0x27] @ js ''date'' @
                     [0x27] @ js '')'')))]"
  by (simp add: createCreditCardExcel_def createBankStatementExcel_def bank_transaction_row_def
      category_row_def metric_row_def and_then_def sample_analysis_def elements_def cell_def
      js_or_def sample_toString_def TypeError_null_def post_generate_report_def
      generate_report_try_def server_error_def lit_def js_def)

end
